theory Spec2Isabelle
  imports Main
begin

section \<open>Pushmatic: the promise chain of src/index.js\<close>

text \<open>
  The library is four static methods of the class \<open>Pushmatic\<close>; each returns a promise
  built from calls into the host (the browser). The embedding keeps three things explicit:
  \<^item> JavaScript values, with the property reads, the \<open>in\<close> operator and the truthiness
    test the methods perform, each of which can throw;
  \<^item> the host: the global bindings \<open>window\<close>, \<open>navigator\<close> and \<open>Notification\<close> are state
    (an association list from identifiers to values), and a host function is a number
    whose behaviour the parameter \<open>h\<close> gives;
  \<^item> promises, by the state they end in: one that never settles is \<open>Pending\<close>.
  A synchronous \<open>throw\<close> is a result of its own (\<open>Throws\<close>), distinct from a returned
  promise that rejects.
\<close>

subsection \<open>Values\<close>

datatype ename = Error | TypeError | ReferenceError

text \<open>
  \<open>JObject\<close> lists the properties that a read or \<open>in\<close> finds on the object (own or
  inherited). Functions and error objects are objects; none of the property names the
  library reads is defined on them or on a primitive, so a read there gives
  \<open>undefined\<close>. Numbers are integers (\<open>NaN\<close>, also falsy, is not represented).
\<close>

datatype jsval =
    JUndefined
  | JNull
  | JBool bool
  | JNum int
  | JStr string
  | JError ename string
  | JObject "(string \<times> jsval) list"
  | JFunction nat

text \<open>
  An error the engine raises carries the engine's wording. The model writes V8's where
  the text is fixed by the program: a read of a property of \<open>undefined\<close> or \<open>null\<close>, a
  call of what is not a function, an identifier without binding. For \<open>in\<close> on a
  primitive V8 appends the printed operand, which the model leaves out; no statement
  below quotes that message.
\<close>

text \<open>The eventual state of a promise, and the two ways a call can complete.\<close>

datatype promise = Pending | Fulfilled jsval | Rejected jsval

datatype completion = Throws jsval | Returns promise

text \<open>
  What calling a host function does: it throws, or returns a value on which \<open>.then\<close> is
  not callable (the callback form of \<open>Notification.requestPermission\<close> returns
  \<open>undefined\<close>), or returns a native promise. A promise is never fulfilled with a
  thenable, so \<open>resolve v\<close> on a fulfilment value \<open>v\<close> fulfils with \<open>v\<close>.
\<close>

datatype host_result = HostThrows jsval | HostValue jsval | HostPromise promise

text \<open>
  The trace is a ghost log: \<open>HostCall f args\<close> at each call of a host function and
  \<open>StepCall name args\<close> at each \<open>this.name(args)\<close> of \<open>initializePushNotifications\<close>.
\<close>

datatype event = HostCall nat "jsval list" | StepCall string "jsval list"

record world =
  globals :: "(string \<times> jsval) list"
  trace :: "event list"

text \<open>
  \<open>h f args g = (r, g')\<close>: host function \<open>f\<close>, called with \<open>args\<close> when the globals are
  \<open>g\<close>, completes as \<open>r\<close>; \<open>g'\<close> are the globals at the moment it throws, returns or,
  for a promise, settles (the user has answered the prompt, \<open>Notification.permission\<close>
  has changed).
\<close>

type_synonym host = "nat \<Rightarrow> jsval list \<Rightarrow> (string \<times> jsval) list \<Rightarrow> host_result \<times> (string \<times> jsval) list"

subsection \<open>The JavaScript operations the methods use\<close>

definition lookup_global :: "string \<Rightarrow> world \<Rightarrow> jsval + jsval" where
  \<comment> \<open>reading an identifier that has no binding throws a ReferenceError\<close>
  "lookup_global x w =
     (case map_of (globals w) x of
        None \<Rightarrow> Inl (JError ReferenceError (x @ '' is not defined''))
      | Some v \<Rightarrow> Inr v)"

fun in_op :: "string \<Rightarrow> jsval \<Rightarrow> jsval + bool" where
  \<comment> \<open>\<open>k in v\<close>: a present property counts even when its value is \<open>undefined\<close>\<close>
  "in_op k (JObject ps) = Inr (map_of ps k \<noteq> None)"
| "in_op k (JFunction f) = Inr False"
| "in_op k (JError n m) = Inr False"
| "in_op k v = Inl (JError TypeError ''right-hand side of in is not an object'')"

definition quoted :: "string \<Rightarrow> string" where
  "quoted k = CHR 0x27 # k @ [CHR 0x27]"

fun get_prop :: "jsval \<Rightarrow> string \<Rightarrow> jsval + jsval" where
  \<comment> \<open>\<open>v.k\<close>\<close>
  "get_prop JUndefined k =
     Inl (JError TypeError (''Cannot read properties of undefined (reading '' @ quoted k @ '')''))"
| "get_prop JNull k =
     Inl (JError TypeError (''Cannot read properties of null (reading '' @ quoted k @ '')''))"
| "get_prop (JObject ps) k = Inr (case map_of ps k of None \<Rightarrow> JUndefined | Some v \<Rightarrow> v)"
| "get_prop v k = Inr JUndefined"

fun truthy :: "jsval \<Rightarrow> bool" where
  "truthy JUndefined = False"
| "truthy JNull = False"
| "truthy (JBool b) = b"
| "truthy (JNum n) = (n \<noteq> 0)"
| "truthy (JStr s) = (s \<noteq> [])"
| "truthy v = True"

definition log :: "event \<Rightarrow> world \<Rightarrow> world" where
  "log e w = w\<lparr>trace := trace w @ [e]\<rparr>"

fun call_host :: "host \<Rightarrow> string \<Rightarrow> jsval \<Rightarrow> jsval list \<Rightarrow> world \<Rightarrow> host_result \<times> world" where
  \<comment> \<open>\<open>callee(args)\<close>, where \<open>callee\<close> is the text of the expression that gave \<open>f\<close>:
      calling what is not a function throws a TypeError that names the expression\<close>
  "call_host h callee (JFunction f) args w =
     (case h f args (globals w) of
        (r, g') \<Rightarrow> (r, \<lparr>globals = g', trace = trace w @ [HostCall f args]\<rparr>))"
| "call_host h callee v args w =
     (HostThrows (JError TypeError (callee @ '' is not a function'')), w)"

definition no_then :: "string \<Rightarrow> jsval \<Rightarrow> jsval" where
  \<comment> \<open>what \<open>callee(args).then\<close> throws when the call returned \<open>v\<close>, not a thenable: the
      read of \<open>then\<close> fails on \<open>undefined\<close> and \<open>null\<close>, the call of it on any other value\<close>
  "no_then callee v =
     (case get_prop v ''then'' of
        Inl e \<Rightarrow> e
      | Inr t \<Rightarrow> JError TypeError (callee @ ''(...).then is not a function''))"

subsection \<open>Promises\<close>

text \<open>
  The executor of \<open>new Promise\<close> either throws or returns; \<open>Settles p\<close> says that it
  returned and that the calls of \<open>resolve\<close> and \<open>reject\<close> it made or left to callbacks
  bring the promise to \<open>p\<close> (\<open>Pending\<close> when neither is ever called). The constructor
  turns an executor's throw into a rejection; in each executor below nothing has called
  \<open>resolve\<close> or \<open>reject\<close> before a throw.
\<close>

datatype exec_result = Threw jsval | Settles promise

fun new_Promise :: "exec_result \<Rightarrow> completion" where
  "new_Promise (Threw e) = Returns (Rejected e)"
| "new_Promise (Settles p) = Returns p"

text \<open>
  \<open>p.then(cb)\<close> with one argument: the callback runs only once \<open>p\<close> is fulfilled, in the
  world of that moment; a rejection passes through; a promise the callback returns is
  adopted.
\<close>

datatype cb_result = CbThrows jsval | CbReturns jsval | CbReturnsPromise promise

fun then_p :: "promise \<Rightarrow> (jsval \<Rightarrow> world \<Rightarrow> cb_result \<times> world) \<Rightarrow> world \<Rightarrow> promise \<times> world" where
  "then_p Pending cb w = (Pending, w)"
| "then_p (Rejected e) cb w = (Rejected e, w)"
| "then_p (Fulfilled v) cb w =
     (case cb v w of
        (CbThrows e, w') \<Rightarrow> (Rejected e, w')
      | (CbReturns x, w') \<Rightarrow> (Fulfilled x, w')
      | (CbReturnsPromise q, w') \<Rightarrow> (q, w'))"

subsection \<open>requestPermission\<close>

definition requestPermission_executor :: "host \<Rightarrow> world \<Rightarrow> exec_result \<times> world" where
  "requestPermission_executor h w =
     (case lookup_global ''window'' w of
        Inl e \<Rightarrow> (Threw e, w)
      | Inr win \<Rightarrow>
     (case in_op ''Notification'' win of
        Inl e \<Rightarrow> (Threw e, w)
      | Inr present \<Rightarrow>
     if \<not> present
     then (Settles (Rejected (JError Error ''This browser does not support notifications.'')), w)
     else
     (case lookup_global ''Notification'' w of
        Inl e \<Rightarrow> (Threw e, w)
      | Inr n \<Rightarrow>
     (case get_prop n ''requestPermission'' of
        Inl e \<Rightarrow> (Threw e, w)
      | Inr f \<Rightarrow>
     (case call_host h ''Notification.requestPermission'' f [] w of
        (HostThrows e, w') \<Rightarrow> (Threw e, w')
      | (HostValue v, w') \<Rightarrow> (Threw (no_then ''Notification.requestPermission'' v), w')
      | (HostPromise Pending, w') \<Rightarrow> (Settles Pending, w')
      | (HostPromise (Fulfilled permission), w') \<Rightarrow>
          (if permission = JStr ''granted''
           then (Settles (Fulfilled permission), w')
           else (Settles (Rejected (JError Error ''Notification permission not granted.'')), w'))
      | (HostPromise (Rejected e), w') \<Rightarrow>
          \<comment> \<open>\<open>.then\<close> has one argument and no \<open>.catch\<close> follows: neither \<open>resolve\<close> nor \<open>reject\<close> runs\<close>
          (Settles Pending, w'))))))"

definition requestPermission :: "host \<Rightarrow> world \<Rightarrow> completion \<times> world" where
  "requestPermission h w =
     (case requestPermission_executor h w of (r, w') \<Rightarrow> (new_Promise r, w'))"

subsection \<open>registerServiceWorker\<close>

definition registerServiceWorker_executor :: "host \<Rightarrow> jsval \<Rightarrow> world \<Rightarrow> exec_result \<times> world" where
  "registerServiceWorker_executor h scriptURL w =
     (case lookup_global ''navigator'' w of
        Inl e \<Rightarrow> (Threw e, w)
      | Inr nav \<Rightarrow>
     (case in_op ''serviceWorker'' nav of
        Inl e \<Rightarrow> (Threw e, w)
      | Inr present \<Rightarrow>
     if \<not> present
     then (Settles (Rejected (JError Error ''Service Workers are not supported in this browser.'')), w)
     else
     (case lookup_global ''navigator'' w of
        Inl e \<Rightarrow> (Threw e, w)
      | Inr nav' \<Rightarrow>
     (case get_prop nav' ''serviceWorker'' of
        Inl e \<Rightarrow> (Threw e, w)
      | Inr sw \<Rightarrow>
     (case get_prop sw ''register'' of
        Inl e \<Rightarrow> (Threw e, w)
      | Inr f \<Rightarrow>
     (case call_host h ''navigator.serviceWorker.register'' f [scriptURL] w of
        (HostThrows e, w') \<Rightarrow> (Threw e, w')
      | (HostValue v, w') \<Rightarrow> (Threw (no_then ''navigator.serviceWorker.register'' v), w')
      | (HostPromise Pending, w') \<Rightarrow> (Settles Pending, w')
      | (HostPromise (Fulfilled registration), w') \<Rightarrow>
          \<comment> \<open>\<open>.then((registration) => resolve(registration))\<close>\<close>
          (Settles (Fulfilled registration), w')
      | (HostPromise (Rejected e), w') \<Rightarrow>
          \<comment> \<open>\<open>.catch(reject)\<close>\<close>
          (Settles (Rejected e), w')))))))"

definition registerServiceWorker :: "host \<Rightarrow> jsval \<Rightarrow> world \<Rightarrow> completion \<times> world" where
  "registerServiceWorker h scriptURL w =
     (case registerServiceWorker_executor h scriptURL w of (r, w') \<Rightarrow> (new_Promise r, w'))"

subsection \<open>subscribeToPush\<close>

definition subscribeToPush_executor :: "host \<Rightarrow> jsval \<Rightarrow> jsval \<Rightarrow> world \<Rightarrow> exec_result \<times> world" where
  "subscribeToPush_executor h registration options w =
     (case get_prop registration ''pushManager'' of
        Inl e \<Rightarrow> (Threw e, w)
      | Inr pm \<Rightarrow>
     if \<not> truthy pm
     then (Settles (Rejected (JError Error ''Push messaging is not supported in this browser.'')), w)
     else
     (case lookup_global ''Notification'' w of
        Inl e \<Rightarrow> (Threw e, w)
      | Inr n \<Rightarrow>
     (case get_prop n ''permission'' of
        Inl e \<Rightarrow> (Threw e, w)
      | Inr permission \<Rightarrow>
     if permission \<noteq> JStr ''granted''
     then (Settles (Rejected (JError Error ''Notification permission is not granted.'')), w)
     else
     (case get_prop registration ''pushManager'' of
        Inl e \<Rightarrow> (Threw e, w)
      | Inr pm' \<Rightarrow>
     (case get_prop pm' ''subscribe'' of
        Inl e \<Rightarrow> (Threw e, w)
      | Inr f \<Rightarrow>
     (case call_host h ''registration.pushManager.subscribe'' f [options] w of
        (HostThrows e, w') \<Rightarrow> (Threw e, w')
      | (HostValue v, w') \<Rightarrow> (Threw (no_then ''registration.pushManager.subscribe'' v), w')
      | (HostPromise Pending, w') \<Rightarrow> (Settles Pending, w')
      | (HostPromise (Fulfilled subscription), w') \<Rightarrow>
          \<comment> \<open>\<open>.then(resolve)\<close>\<close>
          (Settles (Fulfilled subscription), w')
      | (HostPromise (Rejected e), w') \<Rightarrow>
          \<comment> \<open>\<open>.catch(reject)\<close>\<close>
          (Settles (Rejected e), w')))))))"

definition subscribeToPush :: "host \<Rightarrow> jsval \<Rightarrow> jsval \<Rightarrow> world \<Rightarrow> completion \<times> world" where
  "subscribeToPush h registration options w =
     (case subscribeToPush_executor h registration options w of (r, w') \<Rightarrow> (new_Promise r, w'))"

subsection \<open>initializePushNotifications\<close>

text \<open>
  The method reaches its three steps through \<open>this\<close>, so the steps are fields of the
  class object: the tests replace them by mocks, and \<open>Pushmatic h\<close> below holds the
  methods of the source. \<open>initializePushNotifications\<close> below is the method called on a
  class object, as the README does throughout; \<open>call_initializePushNotifications\<close>
  further down adds the call that has no \<open>this\<close>.
\<close>

record pushmatic =
  requestPermission_m :: "world \<Rightarrow> completion \<times> world"
  registerServiceWorker_m :: "jsval \<Rightarrow> world \<Rightarrow> completion \<times> world"
  subscribeToPush_m :: "jsval \<Rightarrow> jsval \<Rightarrow> world \<Rightarrow> completion \<times> world"

definition permission_callback :: "pushmatic \<Rightarrow> jsval \<Rightarrow> world \<Rightarrow> cb_result \<times> world" where
  \<comment> \<open>\<open>(registration) => { return this.requestPermission().then(() => registration); }\<close>\<close>
  "permission_callback this registration w =
     (case requestPermission_m this (log (StepCall ''requestPermission'' []) w) of
        (Throws e, w') \<Rightarrow> (CbThrows e, w')
      | (Returns q, w') \<Rightarrow>
          (case then_p q (\<lambda>_ w. (CbReturns registration, w)) w' of
             (r, w'') \<Rightarrow> (CbReturnsPromise r, w'')))"

definition subscribe_callback :: "pushmatic \<Rightarrow> jsval \<Rightarrow> jsval \<Rightarrow> world \<Rightarrow> cb_result \<times> world" where
  \<comment> \<open>\<open>(registration) => this.subscribeToPush(registration, options)\<close>\<close>
  "subscribe_callback this options registration w =
     (case subscribeToPush_m this registration options
             (log (StepCall ''subscribeToPush'' [registration, options]) w) of
        (Throws e, w') \<Rightarrow> (CbThrows e, w')
      | (Returns r, w') \<Rightarrow> (CbReturnsPromise r, w'))"

definition initializePushNotifications :: "pushmatic \<Rightarrow> jsval \<Rightarrow> jsval \<Rightarrow> world \<Rightarrow> completion \<times> world" where
  "initializePushNotifications this serviceWorkerUrl options w =
     (case registerServiceWorker_m this serviceWorkerUrl
             (log (StepCall ''registerServiceWorker'' [serviceWorkerUrl]) w) of
        (Throws e, w1) \<Rightarrow> (Throws e, w1)
      | (Returns p1, w1) \<Rightarrow>
          (case then_p p1 (permission_callback this) w1 of
             (p2, w2) \<Rightarrow>
               (case then_p p2 (subscribe_callback this options) w2 of
                  (p3, w3) \<Rightarrow> (Returns p3, w3))))"

definition Pushmatic :: "host \<Rightarrow> pushmatic" where
  "Pushmatic h =
     \<lparr>requestPermission_m = requestPermission h,
      registerServiceWorker_m = registerServiceWorker h,
      subscribeToPush_m = subscribeToPush h\<rparr>"

text \<open>
  What \<open>this\<close> is depends on the call: \<open>Pushmatic.initializePushNotifications(...)\<close> binds
  it to the class, a call of the function taken off the class
  (\<open>const f = Pushmatic.initializePushNotifications; f(...)\<close>) leaves it \<open>undefined\<close>, class
  bodies being strict code. Then the read \<open>this.registerServiceWorker\<close>, which stands
  outside any executor and any callback, throws.
\<close>

definition call_initializePushNotifications ::
    "pushmatic option \<Rightarrow> jsval \<Rightarrow> jsval \<Rightarrow> world \<Rightarrow> completion \<times> world" where
  "call_initializePushNotifications receiver serviceWorkerUrl options w =
     (case receiver of
        None \<Rightarrow>
          (case get_prop JUndefined ''registerServiceWorker'' of
             Inl e \<Rightarrow> (Throws e, w)
           | Inr m \<Rightarrow> (Throws (JError TypeError ''this.registerServiceWorker is not a function''), w))
      | Some this \<Rightarrow> initializePushNotifications this serviceWorkerUrl options w)"

subsection \<open>A browser to run the methods in\<close>

text \<open>
  Host function 1 is \<open>Notification.requestPermission\<close>, 2 is
  \<open>navigator.serviceWorker.register\<close>, 3 is \<open>pushManager.subscribe\<close>. The three
  parameters of \<open>browser\<close> are how their promises end; an answer to the prompt becomes
  the value of \<open>Notification.permission\<close>. The values are those of the test suite.
\<close>

definition notification_object :: "string \<Rightarrow> jsval" where
  "notification_object status =
     JObject [(''requestPermission'', JFunction 1), (''permission'', JStr status)]"

definition browser_globals :: "string \<Rightarrow> (string \<times> jsval) list" where
  "browser_globals status =
     [(''window'', JObject [(''Notification'', notification_object status)]),
      (''navigator'', JObject [(''serviceWorker'', JObject [(''register'', JFunction 2)])]),
      (''Notification'', notification_object status)]"

definition browser :: "promise \<Rightarrow> promise \<Rightarrow> promise \<Rightarrow> host" where
  "browser answer registered subscribed f args g =
     (if f = 1 then
        (HostPromise answer,
         case answer of Fulfilled (JStr s) \<Rightarrow> browser_globals s | _ \<Rightarrow> g)
      else if f = 2 then (HostPromise registered, g)
      else if f = 3 then (HostPromise subscribed, g)
      else (HostThrows (JError TypeError ''no such host function''), g))"

definition callback_style_host :: host where
  \<comment> \<open>a host whose functions take callbacks and return \<open>undefined\<close>, as
      \<open>Notification.requestPermission\<close> did before it returned a promise\<close>
  "callback_style_host f args g = (HostValue JUndefined, g)"

definition start :: "string \<Rightarrow> world" where
  "start status = \<lparr>globals = browser_globals status, trace = []\<rparr>"

definition dummyRegistration :: jsval where
  "dummyRegistration = JObject [(''pushManager'', JObject [(''subscribe'', JFunction 3)])]"

definition dummySubscription :: jsval where
  "dummySubscription = JObject [(''endpoint'', JStr ''https://dummy.push/subscription'')]"

definition dummyOptions :: jsval where
  "dummyOptions =
     JObject [(''userVisibleOnly'', JBool True), (''applicationServerKey'', JStr ''dummyKey'')]"

subsection \<open>The spec's wrapped failures\<close>


section \<open>Properties\<close>

subsection \<open>Every method returns a promise\<close>

lemma new_Promise_returns: "\<exists>p. new_Promise r = Returns p"
  by (cases r) simp_all

lemma new_Promise_Fulfilled:
  "new_Promise r = Returns (Fulfilled v) \<longleftrightarrow> r = Settles (Fulfilled v)"
  by (cases r) auto

lemma requestPermission_returns: "\<exists>p w'. requestPermission h w = (Returns p, w')"
proof -
  obtain r w' where "requestPermission_executor h w = (r, w')" by force
  then show ?thesis
    using new_Promise_returns [of r] by (auto simp: requestPermission_def)
qed

lemma registerServiceWorker_returns: "\<exists>p w'. registerServiceWorker h u w = (Returns p, w')"
proof -
  obtain r w' where "registerServiceWorker_executor h u w = (r, w')" by force
  then show ?thesis
    using new_Promise_returns [of r] by (auto simp: registerServiceWorker_def)
qed

lemma subscribeToPush_returns: "\<exists>p w'. subscribeToPush h reg opts w = (Returns p, w')"
proof -
  obtain r w' where "subscribeToPush_executor h reg opts w = (r, w')" by force
  then show ?thesis
    using new_Promise_returns [of r] by (auto simp: subscribeToPush_def)
qed

lemma initialize_returns:
  assumes "\<And>u w. \<exists>p w'. registerServiceWorker_m this u w = (Returns p, w')"
  shows "\<exists>p w'. initializePushNotifications this url opts w = (Returns p, w')"
proof -
  obtain p1 w1 where
    "registerServiceWorker_m this url (log (StepCall ''registerServiceWorker'' [url]) w)
       = (Returns p1, w1)"
    using assms by blast
  then show ?thesis
    by (simp add: initializePushNotifications_def split: prod.splits)
qed

subsection \<open>Reads that cannot throw\<close>

text \<open>
  \<open>registerServiceWorker\<close> reads \<open>navigator.serviceWorker\<close> after \<open>in\<close> has found the
  property, and \<open>subscribeToPush\<close> reads \<open>subscribe\<close> on a push manager it has found
  truthy: neither read is on \<open>undefined\<close> or \<open>null\<close>.
\<close>

lemma get_prop_after_in: "in_op k v = Inr True \<Longrightarrow> \<exists>x. get_prop v k' = Inr x"
  by (cases v) auto

lemma get_prop_truthy: "truthy v \<Longrightarrow> \<exists>x. get_prop v k = Inr x"
  by (cases v) auto

subsection \<open>What a call of a host function leaves behind\<close>

lemma call_host_promise:
  "call_host h callee v args w = (HostPromise p, w') \<Longrightarrow>
     \<exists>f g'. v = JFunction f \<and> h f args (globals w) = (HostPromise p, g')
       \<and> w' = \<lparr>globals = g', trace = trace w @ [HostCall f args]\<rparr>"
  by (cases v) (auto split: prod.splits)

lemma call_host_result:
  "call_host h callee v args w = (r, w') \<Longrightarrow>
     (\<exists>f g'. v = JFunction f \<and> h f args (globals w) = (r, g')
        \<and> w' = \<lparr>globals = g', trace = trace w @ [HostCall f args]\<rparr>)
     \<or> (w' = w \<and> r = HostThrows (JError TypeError (callee @ '' is not a function'')))"
  by (cases v) (auto split: prod.splits)

subsection \<open>A fulfilled promise comes from a fulfilled host promise\<close>

lemma registerServiceWorker_fulfilled:
  assumes "registerServiceWorker h u w = (Returns (Fulfilled reg), w')"
  shows "\<exists>f g' nav sw. map_of (globals w) ''navigator'' = Some nav
      \<and> get_prop nav ''serviceWorker'' = Inr sw \<and> get_prop sw ''register'' = Inr (JFunction f)
      \<and> h f [u] (globals w) = (HostPromise (Fulfilled reg), g')
      \<and> w' = \<lparr>globals = g', trace = trace w @ [HostCall f [u]]\<rparr>"
  using assms
  unfolding registerServiceWorker_def registerServiceWorker_executor_def lookup_global_def
  by (auto split: prod.splits sum.splits option.splits if_splits host_result.splits promise.splits
      simp: new_Promise_Fulfilled dest!: call_host_promise)

lemma requestPermission_fulfilled:
  assumes "requestPermission h w = (Returns (Fulfilled v), w')"
  shows "v = JStr ''granted'' \<and> (\<exists>f g' n. map_of (globals w) ''Notification'' = Some n
      \<and> get_prop n ''requestPermission'' = Inr (JFunction f)
      \<and> h f [] (globals w) = (HostPromise (Fulfilled (JStr ''granted'')), g')
      \<and> w' = \<lparr>globals = g', trace = trace w @ [HostCall f []]\<rparr>)"
  using assms
  unfolding requestPermission_def requestPermission_executor_def lookup_global_def
  by (auto split: prod.splits sum.splits option.splits if_splits host_result.splits promise.splits
      simp: new_Promise_Fulfilled dest!: call_host_promise)

lemma subscribeToPush_fulfilled:
  assumes "subscribeToPush h reg opts w = (Returns (Fulfilled v), w')"
  shows "\<exists>f g' pm. get_prop reg ''pushManager'' = Inr pm \<and> truthy pm
      \<and> get_prop pm ''subscribe'' = Inr (JFunction f)
      \<and> h f [opts] (globals w) = (HostPromise (Fulfilled v), g')
      \<and> w' = \<lparr>globals = g', trace = trace w @ [HostCall f [opts]]\<rparr>"
  using assms
  unfolding subscribeToPush_def subscribeToPush_executor_def lookup_global_def
  by (auto split: prod.splits sum.splits option.splits if_splits host_result.splits promise.splits
      simp: new_Promise_Fulfilled dest!: call_host_promise)

subsection \<open>The promise follows the host promise\<close>



lemma subscribeToPush_after_host:
  assumes "subscribeToPush h reg opts w = (c, w')"
    and "trace w' = trace w @ [HostCall f args]"
    and "h f args (globals w) = (HostPromise p, g')"
  shows "args = [opts] \<and> c = Returns p"
  using assms
  unfolding subscribeToPush_def subscribeToPush_executor_def lookup_global_def
  by (auto split: prod.splits sum.splits option.splits if_splits host_result.splits promise.splits
      dest!: call_host_result)

subsection \<open>The two checks of subscribeToPush\<close>

lemma subscribeToPush_no_pushManager:
  "get_prop reg ''pushManager'' = Inr pm \<Longrightarrow> \<not> truthy pm \<Longrightarrow>
     subscribeToPush h reg opts w =
       (Returns (Rejected (JError Error ''Push messaging is not supported in this browser.'')), w)"
  by (simp add: subscribeToPush_def subscribeToPush_executor_def)

lemma subscribeToPush_not_granted:
  "get_prop reg ''pushManager'' = Inr pm \<Longrightarrow> truthy pm \<Longrightarrow>
   map_of (globals w) ''Notification'' = Some n \<Longrightarrow> get_prop n ''permission'' = Inr status \<Longrightarrow>
   status \<noteq> JStr ''granted'' \<Longrightarrow>
     subscribeToPush h reg opts w =
       (Returns (Rejected (JError Error ''Notification permission is not granted.'')), w)"
  by (simp add: subscribeToPush_def subscribeToPush_executor_def lookup_global_def)

subsection \<open>The chain of initializePushNotifications\<close>

lemma then_p_Fulfilled:
  "then_p p cb w = (Fulfilled v, w') \<longleftrightarrow>
     (\<exists>x. p = Fulfilled x \<and>
        (cb x w = (CbReturns v, w') \<or> cb x w = (CbReturnsPromise (Fulfilled v), w')))"
  by (cases p) (auto split: prod.splits cb_result.splits)

lemma subscribe_callback_Fulfilled:
  "subscribe_callback this opts reg w = (r, w') \<Longrightarrow>
     r = CbReturns v \<or> r = CbReturnsPromise (Fulfilled v) \<Longrightarrow>
     subscribeToPush_m this reg opts (log (StepCall ''subscribeToPush'' [reg, opts]) w)
       = (Returns (Fulfilled v), w')"
  unfolding subscribe_callback_def
  by (auto split: prod.splits completion.splits)

lemma permission_callback_Fulfilled:
  "permission_callback this reg w = (r, w') \<Longrightarrow>
     r = CbReturns v \<or> r = CbReturnsPromise (Fulfilled v) \<Longrightarrow>
     v = reg \<and> (\<exists>x. requestPermission_m this (log (StepCall ''requestPermission'' []) w)
       = (Returns (Fulfilled x), w'))"
  unfolding permission_callback_def
  by (auto split: prod.splits completion.splits simp: then_p_Fulfilled)

lemma initialize_fulfilled:
  assumes "initializePushNotifications this url opts w = (Returns (Fulfilled sub), w')"
  shows "\<exists>reg w1 x w2.
      registerServiceWorker_m this url (log (StepCall ''registerServiceWorker'' [url]) w)
        = (Returns (Fulfilled reg), w1)
    \<and> requestPermission_m this (log (StepCall ''requestPermission'' []) w1)
        = (Returns (Fulfilled x), w2)
    \<and> subscribeToPush_m this reg opts (log (StepCall ''subscribeToPush'' [reg, opts]) w2)
        = (Returns (Fulfilled sub), w')"
proof -
  obtain c1 w1 where c1:
    "registerServiceWorker_m this url (log (StepCall ''registerServiceWorker'' [url]) w) = (c1, w1)"
    by force
  obtain p1 where p1: "c1 = Returns p1"
    using assms c1 by (cases c1) (auto simp: initializePushNotifications_def)
  obtain p2 w2 where p2: "then_p p1 (permission_callback this) w1 = (p2, w2)"
    by force
  have p3: "then_p p2 (subscribe_callback this opts) w2 = (Fulfilled sub, w')"
    using assms c1 p1 p2 by (auto simp: initializePushNotifications_def split: prod.splits)
  from p3 obtain reg2 where reg2: "p2 = Fulfilled reg2"
    and s: "subscribeToPush_m this reg2 opts (log (StepCall ''subscribeToPush'' [reg2, opts]) w2)
        = (Returns (Fulfilled sub), w')"
    unfolding then_p_Fulfilled using subscribe_callback_Fulfilled by blast
  have "then_p p1 (permission_callback this) w1 = (Fulfilled reg2, w2)"
    using p2 reg2 by simp
  then obtain reg where reg: "p1 = Fulfilled reg" and "reg2 = reg"
    and "\<exists>x. requestPermission_m this (log (StepCall ''requestPermission'' []) w1)
       = (Returns (Fulfilled x), w2)"
    unfolding then_p_Fulfilled using permission_callback_Fulfilled by blast
  with c1 p1 s show ?thesis by blast
qed

lemma initialize_success_trace:
  assumes "initializePushNotifications (Pushmatic h) url opts w = (Returns (Fulfilled sub), w')"
  shows "\<exists>f1 f2 f3 reg g1 g2 g3 nav sw n pm.
      map_of (globals w) ''navigator'' = Some nav
    \<and> get_prop nav ''serviceWorker'' = Inr sw \<and> get_prop sw ''register'' = Inr (JFunction f1)
    \<and> h f1 [url] (globals w) = (HostPromise (Fulfilled reg), g1)
    \<and> map_of g1 ''Notification'' = Some n
    \<and> get_prop n ''requestPermission'' = Inr (JFunction f2)
    \<and> h f2 [] g1 = (HostPromise (Fulfilled (JStr ''granted'')), g2)
    \<and> get_prop reg ''pushManager'' = Inr pm \<and> get_prop pm ''subscribe'' = Inr (JFunction f3)
    \<and> h f3 [opts] g2 = (HostPromise (Fulfilled sub), g3)
    \<and> w' = \<lparr>globals = g3,
             trace = trace w @
               [StepCall ''registerServiceWorker'' [url], HostCall f1 [url],
                StepCall ''requestPermission'' [], HostCall f2 [],
                StepCall ''subscribeToPush'' [reg, opts], HostCall f3 [opts]]\<rparr>"
proof -
  from initialize_fulfilled [OF assms] obtain reg w1 x w2 where
    r: "registerServiceWorker h url (log (StepCall ''registerServiceWorker'' [url]) w)
          = (Returns (Fulfilled reg), w1)"
    and p: "requestPermission h (log (StepCall ''requestPermission'' []) w1)
          = (Returns (Fulfilled x), w2)"
    and s: "subscribeToPush h reg opts (log (StepCall ''subscribeToPush'' [reg, opts]) w2)
          = (Returns (Fulfilled sub), w')"
    by (auto simp: Pushmatic_def)
  from registerServiceWorker_fulfilled [OF r] obtain f1 g1 nav sw where
    r': "map_of (globals w) ''navigator'' = Some nav" "get_prop nav ''serviceWorker'' = Inr sw"
      "get_prop sw ''register'' = Inr (JFunction f1)"
      "h f1 [url] (globals w) = (HostPromise (Fulfilled reg), g1)"
      "w1 = \<lparr>globals = g1, trace = trace w @ [StepCall ''registerServiceWorker'' [url], HostCall f1 [url]]\<rparr>"
    by (auto simp: log_def)
  from requestPermission_fulfilled [OF p] r'(5) obtain f2 g2 n where
    p': "map_of g1 ''Notification'' = Some n" "get_prop n ''requestPermission'' = Inr (JFunction f2)"
      "h f2 [] g1 = (HostPromise (Fulfilled (JStr ''granted'')), g2)"
      "w2 = \<lparr>globals = g2, trace = trace w @ [StepCall ''registerServiceWorker'' [url], HostCall f1 [url],
                StepCall ''requestPermission'' [], HostCall f2 []]\<rparr>"
    by (auto simp: log_def)
  from subscribeToPush_fulfilled [OF s] p'(4) obtain f3 g3 pm where
    s': "get_prop reg ''pushManager'' = Inr pm" "get_prop pm ''subscribe'' = Inr (JFunction f3)"
      "h f3 [opts] g2 = (HostPromise (Fulfilled sub), g3)"
      "w' = \<lparr>globals = g3, trace = trace w @ [StepCall ''registerServiceWorker'' [url], HostCall f1 [url],
                StepCall ''requestPermission'' [], HostCall f2 [],
                StepCall ''subscribeToPush'' [reg, opts], HostCall f3 [opts]]\<rparr>"
    by (auto simp: log_def)
  from r' p' s' show ?thesis by blast
qed



section \<open>The claims\<close>

text \<open>
  C1. Fail-fast, for any class object \<open>this\<close> (the methods of the source or mocks): when
  a step's promise rejects with \<open>e\<close>, the promise of \<open>initializePushNotifications\<close>
  rejects with \<open>e\<close> itself, and the world it ends in is the one in which that step
  settled, so nothing ran after it: the later steps are not called. The three conjuncts
  are a failure of \<open>registerServiceWorker\<close>, of \<open>requestPermission\<close> and of
  \<open>subscribeToPush\<close>.
\<close>

theorem initialize_fail_fast:
  "(registerServiceWorker_m this url (log (StepCall ''registerServiceWorker'' [url]) w)
       = (Returns (Rejected e), w1)
     \<longrightarrow> initializePushNotifications this url opts w = (Returns (Rejected e), w1))
   \<and> (registerServiceWorker_m this url (log (StepCall ''registerServiceWorker'' [url]) w)
         = (Returns (Fulfilled reg), w1)
       \<and> requestPermission_m this (log (StepCall ''requestPermission'' []) w1)
         = (Returns (Rejected e), w2)
     \<longrightarrow> initializePushNotifications this url opts w = (Returns (Rejected e), w2))
   \<and> (registerServiceWorker_m this url (log (StepCall ''registerServiceWorker'' [url]) w)
         = (Returns (Fulfilled reg), w1)
       \<and> requestPermission_m this (log (StepCall ''requestPermission'' []) w1)
         = (Returns (Fulfilled x), w2)
       \<and> subscribeToPush_m this reg opts (log (StepCall ''subscribeToPush'' [reg, opts]) w2)
         = (Returns (Rejected e), w3)
     \<longrightarrow> initializePushNotifications this url opts w = (Returns (Rejected e), w3))"
  by (simp add: initializePushNotifications_def permission_callback_def subscribe_callback_def)


text \<open>
  The three failures in the browser of the test suite, with the methods of the source:
  the trace ends at the failing step.
\<close>

theorem initialize_fail_fast_witness:
  "initializePushNotifications
     (Pushmatic (browser (Fulfilled (JStr ''granted'')) (Rejected (JError Error ''Registration error''))
        (Fulfilled dummySubscription)))
     (JStr ''/sw.js'') dummyOptions (start ''default'')
   = (Returns (Rejected (JError Error ''Registration error'')),
      \<lparr>globals = browser_globals ''default'',
       trace = [StepCall ''registerServiceWorker'' [JStr ''/sw.js''], HostCall 2 [JStr ''/sw.js'']]\<rparr>)
 \<and> initializePushNotifications
     (Pushmatic (browser (Fulfilled (JStr ''denied'')) (Fulfilled dummyRegistration)
        (Fulfilled dummySubscription)))
     (JStr ''/sw.js'') dummyOptions (start ''default'')
   = (Returns (Rejected (JError Error ''Notification permission not granted.'')),
      \<lparr>globals = browser_globals ''denied'',
       trace = [StepCall ''registerServiceWorker'' [JStr ''/sw.js''], HostCall 2 [JStr ''/sw.js''],
                StepCall ''requestPermission'' [], HostCall 1 []]\<rparr>)
 \<and> initializePushNotifications
     (Pushmatic (browser (Fulfilled (JStr ''granted'')) (Fulfilled dummyRegistration)
        (Rejected (JError Error ''Subscription error''))))
     (JStr ''/sw.js'') dummyOptions (start ''default'')
   = (Returns (Rejected (JError Error ''Subscription error'')),
      \<lparr>globals = browser_globals ''granted'',
       trace = [StepCall ''registerServiceWorker'' [JStr ''/sw.js''], HostCall 2 [JStr ''/sw.js''],
                StepCall ''requestPermission'' [], HostCall 1 [],
                StepCall ''subscribeToPush'' [dummyRegistration, dummyOptions],
                HostCall 3 [dummyOptions]]\<rparr>)"
proof (intro conjI)
  let ?url = "JStr ''/sw.js''"
  let ?w1 = "\<lparr>globals = browser_globals ''default'',
       trace = [StepCall ''registerServiceWorker'' [?url], HostCall 2 [?url]]\<rparr>"
  let ?A = "Pushmatic (browser (Fulfilled (JStr ''granted'')) (Rejected (JError Error ''Registration error''))
        (Fulfilled dummySubscription))"
  have a: "registerServiceWorker_m ?A ?url (log (StepCall ''registerServiceWorker'' [?url]) (start ''default''))
      = (Returns (Rejected (JError Error ''Registration error'')), ?w1)"
    by (simp add: Pushmatic_def registerServiceWorker_def registerServiceWorker_executor_def
        requestPermission_def requestPermission_executor_def subscribeToPush_def
        subscribeToPush_executor_def lookup_global_def log_def notification_object_def
        browser_globals_def browser_def start_def dummyRegistration_def)
  from initialize_fail_fast [THEN conjunct1, rule_format, OF a]
  show "initializePushNotifications ?A ?url dummyOptions (start ''default'')
      = (Returns (Rejected (JError Error ''Registration error'')), ?w1)" .
  let ?B = "Pushmatic (browser (Fulfilled (JStr ''denied'')) (Fulfilled dummyRegistration)
        (Fulfilled dummySubscription))"
  let ?w2 = "\<lparr>globals = browser_globals ''denied'',
       trace = [StepCall ''registerServiceWorker'' [?url], HostCall 2 [?url],
                StepCall ''requestPermission'' [], HostCall 1 []]\<rparr>"
  have b1: "registerServiceWorker_m ?B ?url (log (StepCall ''registerServiceWorker'' [?url]) (start ''default''))
      = (Returns (Fulfilled dummyRegistration), ?w1)"
    by (simp add: Pushmatic_def registerServiceWorker_def registerServiceWorker_executor_def
        requestPermission_def requestPermission_executor_def subscribeToPush_def
        subscribeToPush_executor_def lookup_global_def log_def notification_object_def
        browser_globals_def browser_def start_def dummyRegistration_def)
  have b2: "requestPermission_m ?B (log (StepCall ''requestPermission'' []) ?w1)
      = (Returns (Rejected (JError Error ''Notification permission not granted.'')), ?w2)"
    by (simp add: Pushmatic_def registerServiceWorker_def registerServiceWorker_executor_def
        requestPermission_def requestPermission_executor_def subscribeToPush_def
        subscribeToPush_executor_def lookup_global_def log_def notification_object_def
        browser_globals_def browser_def start_def dummyRegistration_def)
  from initialize_fail_fast [THEN conjunct2, THEN conjunct1, rule_format, OF conjI [OF b1 b2]]
  show "initializePushNotifications ?B ?url dummyOptions (start ''default'')
      = (Returns (Rejected (JError Error ''Notification permission not granted.'')), ?w2)" .
  let ?C = "Pushmatic (browser (Fulfilled (JStr ''granted'')) (Fulfilled dummyRegistration)
        (Rejected (JError Error ''Subscription error'')))"
  let ?w2' = "\<lparr>globals = browser_globals ''granted'',
       trace = [StepCall ''registerServiceWorker'' [?url], HostCall 2 [?url],
                StepCall ''requestPermission'' [], HostCall 1 []]\<rparr>"
  let ?w3 = "\<lparr>globals = browser_globals ''granted'',
       trace = [StepCall ''registerServiceWorker'' [?url], HostCall 2 [?url],
                StepCall ''requestPermission'' [], HostCall 1 [],
                StepCall ''subscribeToPush'' [dummyRegistration, dummyOptions],
                HostCall 3 [dummyOptions]]\<rparr>"
  have c1: "registerServiceWorker_m ?C ?url (log (StepCall ''registerServiceWorker'' [?url]) (start ''default''))
      = (Returns (Fulfilled dummyRegistration), ?w1)"
    by (simp add: Pushmatic_def registerServiceWorker_def registerServiceWorker_executor_def
        requestPermission_def requestPermission_executor_def subscribeToPush_def
        subscribeToPush_executor_def lookup_global_def log_def notification_object_def
        browser_globals_def browser_def start_def dummyRegistration_def)
  have c2: "requestPermission_m ?C (log (StepCall ''requestPermission'' []) ?w1)
      = (Returns (Fulfilled (JStr ''granted'')), ?w2')"
    by (simp add: Pushmatic_def registerServiceWorker_def registerServiceWorker_executor_def
        requestPermission_def requestPermission_executor_def subscribeToPush_def
        subscribeToPush_executor_def lookup_global_def log_def notification_object_def
        browser_globals_def browser_def start_def dummyRegistration_def)
  have c3: "subscribeToPush_m ?C dummyRegistration dummyOptions
        (log (StepCall ''subscribeToPush'' [dummyRegistration, dummyOptions]) ?w2')
      = (Returns (Rejected (JError Error ''Subscription error'')), ?w3)"
    by (simp add: Pushmatic_def registerServiceWorker_def registerServiceWorker_executor_def
        requestPermission_def requestPermission_executor_def subscribeToPush_def
        subscribeToPush_executor_def lookup_global_def log_def notification_object_def
        browser_globals_def browser_def start_def dummyRegistration_def)
  from initialize_fail_fast [THEN conjunct2, THEN conjunct2, rule_format, OF conjI [OF c1 conjI [OF c2 c3]]]
  show "initializePushNotifications ?C ?url dummyOptions (start ''default'')
      = (Returns (Rejected (JError Error ''Subscription error'')), ?w3)" .
qed


text \<open>
  C2. Order of a successful run of \<open>Pushmatic.initializePushNotifications\<close>: the trace
  grows by exactly the three steps in the order registration, permission, subscription,
  each followed by its one host call; the permission request runs in the globals \<open>g1\<close>
  in which the registration promise was fulfilled and the subscription in the globals
  \<open>g2\<close> in which the permission promise was; the registration handed to
  \<open>subscribeToPush\<close>, whose push manager is subscribed, is the value \<open>reg\<close> the
  registration call was fulfilled with. A step whose promise never settles is the last
  one (second and third conjunct).
\<close>

theorem initialize_order:
  "(initializePushNotifications (Pushmatic h) url opts w = (Returns (Fulfilled sub), w')
     \<longrightarrow> (\<exists>f1 f2 f3 reg g1 g2 g3 nav sw n pm.
            map_of (globals w) ''navigator'' = Some nav
          \<and> get_prop nav ''serviceWorker'' = Inr sw
          \<and> get_prop sw ''register'' = Inr (JFunction f1)
          \<and> h f1 [url] (globals w) = (HostPromise (Fulfilled reg), g1)
          \<and> map_of g1 ''Notification'' = Some n
          \<and> get_prop n ''requestPermission'' = Inr (JFunction f2)
          \<and> h f2 [] g1 = (HostPromise (Fulfilled (JStr ''granted'')), g2)
          \<and> get_prop reg ''pushManager'' = Inr pm
          \<and> get_prop pm ''subscribe'' = Inr (JFunction f3)
          \<and> h f3 [opts] g2 = (HostPromise (Fulfilled sub), g3)
          \<and> w' = \<lparr>globals = g3,
                   trace = trace w @
                     [StepCall ''registerServiceWorker'' [url], HostCall f1 [url],
                      StepCall ''requestPermission'' [], HostCall f2 [],
                      StepCall ''subscribeToPush'' [reg, opts], HostCall f3 [opts]]\<rparr>))
   \<and> (registerServiceWorker h url (log (StepCall ''registerServiceWorker'' [url]) w)
         = (Returns Pending, w1)
     \<longrightarrow> initializePushNotifications (Pushmatic h) url opts w = (Returns Pending, w1))
   \<and> (registerServiceWorker h url (log (StepCall ''registerServiceWorker'' [url]) w)
         = (Returns (Fulfilled r), w1)
       \<and> requestPermission h (log (StepCall ''requestPermission'' []) w1) = (Returns Pending, w2)
     \<longrightarrow> initializePushNotifications (Pushmatic h) url opts w = (Returns Pending, w2))"
proof (intro conjI impI)
  assume "initializePushNotifications (Pushmatic h) url opts w = (Returns (Fulfilled sub), w')"
  then show "\<exists>f1 f2 f3 reg g1 g2 g3 nav sw n pm.
            map_of (globals w) ''navigator'' = Some nav
          \<and> get_prop nav ''serviceWorker'' = Inr sw
          \<and> get_prop sw ''register'' = Inr (JFunction f1)
          \<and> h f1 [url] (globals w) = (HostPromise (Fulfilled reg), g1)
          \<and> map_of g1 ''Notification'' = Some n
          \<and> get_prop n ''requestPermission'' = Inr (JFunction f2)
          \<and> h f2 [] g1 = (HostPromise (Fulfilled (JStr ''granted'')), g2)
          \<and> get_prop reg ''pushManager'' = Inr pm
          \<and> get_prop pm ''subscribe'' = Inr (JFunction f3)
          \<and> h f3 [opts] g2 = (HostPromise (Fulfilled sub), g3)
          \<and> w' = \<lparr>globals = g3,
                   trace = trace w @
                     [StepCall ''registerServiceWorker'' [url], HostCall f1 [url],
                      StepCall ''requestPermission'' [], HostCall f2 [],
                      StepCall ''subscribeToPush'' [reg, opts], HostCall f3 [opts]]\<rparr>"
    by (rule initialize_success_trace)
next
  assume "registerServiceWorker h url (log (StepCall ''registerServiceWorker'' [url]) w)
         = (Returns Pending, w1)"
  then show "initializePushNotifications (Pushmatic h) url opts w = (Returns Pending, w1)"
    by (simp add: initializePushNotifications_def Pushmatic_def)
next
  assume "registerServiceWorker h url (log (StepCall ''registerServiceWorker'' [url]) w)
         = (Returns (Fulfilled r), w1)
       \<and> requestPermission h (log (StepCall ''requestPermission'' []) w1) = (Returns Pending, w2)"
  then show "initializePushNotifications (Pushmatic h) url opts w = (Returns Pending, w2)"
    by (simp add: initializePushNotifications_def Pushmatic_def permission_callback_def)
qed

text \<open>
  The successful run of the test suite, and the two runs in which a promise never
  settles.
\<close>

theorem initialize_order_witness:
  "initializePushNotifications
     (Pushmatic (browser (Fulfilled (JStr ''granted'')) (Fulfilled dummyRegistration)
        (Fulfilled dummySubscription)))
     (JStr ''/sw.js'') dummyOptions (start ''default'')
   = (Returns (Fulfilled dummySubscription),
      \<lparr>globals = browser_globals ''granted'',
       trace = [StepCall ''registerServiceWorker'' [JStr ''/sw.js''], HostCall 2 [JStr ''/sw.js''],
                StepCall ''requestPermission'' [], HostCall 1 [],
                StepCall ''subscribeToPush'' [dummyRegistration, dummyOptions],
                HostCall 3 [dummyOptions]]\<rparr>)
 \<and> (\<exists>f1 f2 f3 reg.
      trace (snd (initializePushNotifications
        (Pushmatic (browser (Fulfilled (JStr ''granted'')) (Fulfilled dummyRegistration)
           (Fulfilled dummySubscription)))
        (JStr ''/sw.js'') dummyOptions (start ''default'')))
      = [StepCall ''registerServiceWorker'' [JStr ''/sw.js''], HostCall f1 [JStr ''/sw.js''],
         StepCall ''requestPermission'' [], HostCall f2 [],
         StepCall ''subscribeToPush'' [reg, dummyOptions], HostCall f3 [dummyOptions]])
 \<and> initializePushNotifications
     (Pushmatic (browser (Fulfilled (JStr ''granted'')) Pending (Fulfilled dummySubscription)))
     (JStr ''/sw.js'') dummyOptions (start ''default'')
   = (Returns Pending,
      \<lparr>globals = browser_globals ''default'',
       trace = [StepCall ''registerServiceWorker'' [JStr ''/sw.js''], HostCall 2 [JStr ''/sw.js'']]\<rparr>)
 \<and> initializePushNotifications
     (Pushmatic (browser Pending (Fulfilled dummyRegistration) (Fulfilled dummySubscription)))
     (JStr ''/sw.js'') dummyOptions (start ''default'')
   = (Returns Pending,
      \<lparr>globals = browser_globals ''default'',
       trace = [StepCall ''registerServiceWorker'' [JStr ''/sw.js''], HostCall 2 [JStr ''/sw.js''],
                StepCall ''requestPermission'' [], HostCall 1 []]\<rparr>)"
proof (intro conjI)
  let ?url = "JStr ''/sw.js''"
  let ?A = "browser (Fulfilled (JStr ''granted'')) (Fulfilled dummyRegistration)
        (Fulfilled dummySubscription)"
  let ?w' = "\<lparr>globals = browser_globals ''granted'',
       trace = [StepCall ''registerServiceWorker'' [?url], HostCall 2 [?url],
                StepCall ''requestPermission'' [], HostCall 1 [],
                StepCall ''subscribeToPush'' [dummyRegistration, dummyOptions],
                HostCall 3 [dummyOptions]]\<rparr>"
  show a: "initializePushNotifications (Pushmatic ?A) ?url dummyOptions (start ''default'')
      = (Returns (Fulfilled dummySubscription), ?w')"
    by (simp add: initializePushNotifications_def permission_callback_def subscribe_callback_def
        Pushmatic_def registerServiceWorker_def registerServiceWorker_executor_def
        requestPermission_def requestPermission_executor_def subscribeToPush_def
        subscribeToPush_executor_def lookup_global_def log_def notification_object_def
        browser_globals_def browser_def start_def dummyRegistration_def)
  from initialize_order [THEN conjunct1, rule_format, OF a]
  show "\<exists>f1 f2 f3 reg.
      trace (snd (initializePushNotifications (Pushmatic ?A) ?url dummyOptions (start ''default'')))
      = [StepCall ''registerServiceWorker'' [?url], HostCall f1 [?url],
         StepCall ''requestPermission'' [], HostCall f2 [],
         StepCall ''subscribeToPush'' [reg, dummyOptions], HostCall f3 [dummyOptions]]"
    unfolding a by (simp add: start_def)
  let ?B = "browser (Fulfilled (JStr ''granted'')) Pending (Fulfilled dummySubscription)"
  let ?w1 = "\<lparr>globals = browser_globals ''default'',
       trace = [StepCall ''registerServiceWorker'' [?url], HostCall 2 [?url]]\<rparr>"
  have b: "registerServiceWorker ?B ?url (log (StepCall ''registerServiceWorker'' [?url]) (start ''default''))
      = (Returns Pending, ?w1)"
    by (simp add: Pushmatic_def registerServiceWorker_def registerServiceWorker_executor_def
        requestPermission_def requestPermission_executor_def subscribeToPush_def
        subscribeToPush_executor_def lookup_global_def log_def notification_object_def
        browser_globals_def browser_def start_def dummyRegistration_def)
  from initialize_order [THEN conjunct2, THEN conjunct1, rule_format, OF b]
  show "initializePushNotifications (Pushmatic ?B) ?url dummyOptions (start ''default'')
      = (Returns Pending, ?w1)" .
  let ?C = "browser Pending (Fulfilled dummyRegistration) (Fulfilled dummySubscription)"
  let ?w2 = "\<lparr>globals = browser_globals ''default'',
       trace = [StepCall ''registerServiceWorker'' [?url], HostCall 2 [?url],
                StepCall ''requestPermission'' [], HostCall 1 []]\<rparr>"
  have c1: "registerServiceWorker ?C ?url (log (StepCall ''registerServiceWorker'' [?url]) (start ''default''))
      = (Returns (Fulfilled dummyRegistration), ?w1)"
    by (simp add: Pushmatic_def registerServiceWorker_def registerServiceWorker_executor_def
        requestPermission_def requestPermission_executor_def subscribeToPush_def
        subscribeToPush_executor_def lookup_global_def log_def notification_object_def
        browser_globals_def browser_def start_def dummyRegistration_def)
  have c2: "requestPermission ?C (log (StepCall ''requestPermission'' []) ?w1) = (Returns Pending, ?w2)"
    by (simp add: Pushmatic_def registerServiceWorker_def registerServiceWorker_executor_def
        requestPermission_def requestPermission_executor_def subscribeToPush_def
        subscribeToPush_executor_def lookup_global_def log_def notification_object_def
        browser_globals_def browser_def start_def dummyRegistration_def)
  from initialize_order [THEN conjunct2, THEN conjunct2, rule_format, OF conjI [OF c1 c2]]
  show "initializePushNotifications (Pushmatic ?C) ?url dummyOptions (start ''default'')
      = (Returns Pending, ?w2)" .
qed



text \<open>
  C4. The two checks of \<open>subscribeToPush\<close>, in order. A registration whose
  \<open>pushManager\<close> is falsy gives the push-manager error whatever the permission is (the
  second check is not reached, so the first hypothesis says nothing about
  \<open>Notification\<close>); with a push manager, a permission other than \<open>granted\<close> gives the
  permission error. Either way the world is unchanged: no host function was called.
\<close>

theorem subscribeToPush_preconditions:
  "(get_prop reg ''pushManager'' = Inr pm \<and> \<not> truthy pm
      \<longrightarrow> subscribeToPush h reg opts w =
            (Returns (Rejected (JError Error ''Push messaging is not supported in this browser.'')), w))
   \<and> (get_prop reg ''pushManager'' = Inr pm \<and> truthy pm
        \<and> map_of (globals w) ''Notification'' = Some n
        \<and> get_prop n ''permission'' = Inr status \<and> status \<noteq> JStr ''granted''
      \<longrightarrow> subscribeToPush h reg opts w =
            (Returns (Rejected (JError Error ''Notification permission is not granted.'')), w))"
  using subscribeToPush_no_pushManager subscribeToPush_not_granted by blast

text \<open>
  The registration \<open>{}\<close> of the test suite while the permission is \<open>default\<close> (both
  checks would fail; the first one answers), and the full registration with the same
  permission.
\<close>

theorem subscribeToPush_preconditions_witness:
  "get_prop (JObject []) ''pushManager'' = Inr JUndefined \<and> \<not> truthy JUndefined
   \<and> subscribeToPush (browser Pending Pending (Fulfilled dummySubscription)) (JObject [])
        dummyOptions (start ''default'')
      = (Returns (Rejected (JError Error ''Push messaging is not supported in this browser.'')),
         start ''default'')
   \<and> map_of (globals (start ''default'')) ''Notification'' = Some (notification_object ''default'')
   \<and> get_prop (notification_object ''default'') ''permission'' = Inr (JStr ''default'')
   \<and> subscribeToPush (browser Pending Pending (Fulfilled dummySubscription)) dummyRegistration
        dummyOptions (start ''default'')
      = (Returns (Rejected (JError Error ''Notification permission is not granted.'')),
         start ''default'')"
proof (intro conjI)
  let ?h = "browser Pending Pending (Fulfilled dummySubscription)"
  show a1: "get_prop (JObject []) ''pushManager'' = Inr JUndefined" by simp
  show a2: "\<not> truthy JUndefined" by simp
  from subscribeToPush_preconditions [THEN conjunct1, rule_format, OF conjI [OF a1 a2]]
  show "subscribeToPush ?h (JObject []) dummyOptions (start ''default'')
      = (Returns (Rejected (JError Error ''Push messaging is not supported in this browser.'')),
         start ''default'')" .
  have b1: "get_prop dummyRegistration ''pushManager'' = Inr (JObject [(''subscribe'', JFunction 3)])"
    by (simp add: dummyRegistration_def)
  have b2: "truthy (JObject [(''subscribe'', JFunction 3)])" by simp
  show b3: "map_of (globals (start ''default'')) ''Notification'' = Some (notification_object ''default'')"
    by (simp add: start_def browser_globals_def)
  show b4: "get_prop (notification_object ''default'') ''permission'' = Inr (JStr ''default'')"
    by (simp add: notification_object_def)
  have b5: "JStr ''default'' \<noteq> JStr ''granted''" by simp
  from subscribeToPush_preconditions [THEN conjunct2, rule_format,
      OF conjI [OF b1 conjI [OF b2 conjI [OF b3 conjI [OF b4 b5]]]]]
  show "subscribeToPush ?h dummyRegistration dummyOptions (start ''default'')
      = (Returns (Rejected (JError Error ''Notification permission is not granted.'')),
         start ''default'')" .
qed

text \<open>
  C5. When \<open>navigator\<close> has no \<open>serviceWorker\<close> property, \<open>registerServiceWorker\<close>
  rejects with the \<open>Error\<close> "Service Workers are not supported in this browser."; the
  world, and so the trace, is unchanged: the \<open>in\<close> test answered and nothing was
  called.
\<close>

theorem registerServiceWorker_unsupported:
  assumes "map_of (globals w) ''navigator'' = Some nav"
    and "in_op ''serviceWorker'' nav = Inr False"
  shows "registerServiceWorker h url w =
    (Returns (Rejected (JError Error ''Service Workers are not supported in this browser.'')), w)"
  using assms
  by (simp add: registerServiceWorker_def registerServiceWorker_executor_def lookup_global_def)

text \<open>A navigator without properties.\<close>

theorem registerServiceWorker_unsupported_witness:
  "map_of (globals \<lparr>globals = [(''navigator'', JObject [])], trace = []\<rparr>) ''navigator''
     = Some (JObject [])
   \<and> in_op ''serviceWorker'' (JObject []) = Inr False
   \<and> registerServiceWorker (browser Pending (Fulfilled dummyRegistration) Pending) (JStr ''/sw.js'')
        \<lparr>globals = [(''navigator'', JObject [])], trace = []\<rparr>
      = (Returns (Rejected (JError Error ''Service Workers are not supported in this browser.'')),
         \<lparr>globals = [(''navigator'', JObject [])], trace = []\<rparr>)"
proof (intro conjI)
  show a: "map_of (globals \<lparr>globals = [(''navigator'', JObject [])], trace = []\<rparr>) ''navigator''
     = Some (JObject [])" by simp
  show b: "in_op ''serviceWorker'' (JObject []) = Inr False" by simp
  from registerServiceWorker_unsupported [OF a b]
  show "registerServiceWorker (browser Pending (Fulfilled dummyRegistration) Pending) (JStr ''/sw.js'')
        \<lparr>globals = [(''navigator'', JObject [])], trace = []\<rparr>
      = (Returns (Rejected (JError Error ''Service Workers are not supported in this browser.'')),
         \<lparr>globals = [(''navigator'', JObject [])], trace = []\<rparr>)" .
qed




text \<open>
  C7. Pass-through. A fulfilled promise of \<open>subscribeToPush\<close> carries the value \<open>v\<close>
  with which the host's subscribe promise was fulfilled, after one host call whose
  argument list is \<open>[opts]\<close>; and when the one host call of \<open>subscribeToPush\<close> is
  fulfilled with \<open>v\<close>, its arguments were \<open>[opts]\<close> and the result is \<open>v\<close>.
\<close>

theorem subscribeToPush_pass_through:
  "(subscribeToPush h reg opts w = (Returns (Fulfilled v), w')
      \<longrightarrow> (\<exists>f g'. trace w' = trace w @ [HostCall f [opts]]
             \<and> h f [opts] (globals w) = (HostPromise (Fulfilled v), g')))
   \<and> (subscribeToPush h reg opts w = (c, w') \<and> trace w' = trace w @ [HostCall f args]
        \<and> h f args (globals w) = (HostPromise (Fulfilled v), g')
      \<longrightarrow> args = [opts] \<and> c = Returns (Fulfilled v))"
proof (intro conjI impI)
  assume a: "subscribeToPush h reg opts w = (Returns (Fulfilled v), w')"
  from subscribeToPush_fulfilled [OF a]
  show "\<exists>f g'. trace w' = trace w @ [HostCall f [opts]]
      \<and> h f [opts] (globals w) = (HostPromise (Fulfilled v), g')"
    by force
next
  assume b: "subscribeToPush h reg opts w = (c, w') \<and> trace w' = trace w @ [HostCall f args]
        \<and> h f args (globals w) = (HostPromise (Fulfilled v), g')"
  then show "args = [opts]" "c = Returns (Fulfilled v)"
    using subscribeToPush_after_host [of h reg opts w c w' f args "Fulfilled v" g'] by simp_all
qed

text \<open>The subscription of the test suite.\<close>

theorem subscribeToPush_pass_through_witness:
  "subscribeToPush (browser Pending Pending (Fulfilled dummySubscription)) dummyRegistration
       dummyOptions (start ''granted'')
     = (Returns (Fulfilled dummySubscription),
        \<lparr>globals = browser_globals ''granted'', trace = [HostCall 3 [dummyOptions]]\<rparr>)
   \<and> (\<exists>f g'. [HostCall 3 [dummyOptions]] = trace (start ''granted'') @ [HostCall f [dummyOptions]]
         \<and> browser Pending Pending (Fulfilled dummySubscription) f [dummyOptions]
              (globals (start ''granted''))
            = (HostPromise (Fulfilled dummySubscription), g'))
   \<and> browser Pending Pending (Fulfilled dummySubscription) 3 [dummyOptions]
        (globals (start ''granted''))
      = (HostPromise (Fulfilled dummySubscription), browser_globals ''granted'')
   \<and> fst (subscribeToPush (browser Pending Pending (Fulfilled dummySubscription)) dummyRegistration
        dummyOptions (start ''granted''))
      = Returns (Fulfilled dummySubscription)"
proof (intro conjI)
  let ?S = "browser Pending Pending (Fulfilled dummySubscription)"
  show a: "subscribeToPush ?S dummyRegistration dummyOptions (start ''granted'')
     = (Returns (Fulfilled dummySubscription),
        \<lparr>globals = browser_globals ''granted'', trace = [HostCall 3 [dummyOptions]]\<rparr>)"
    by (simp add: registerServiceWorker_def registerServiceWorker_executor_def
        requestPermission_def requestPermission_executor_def subscribeToPush_def
        subscribeToPush_executor_def lookup_global_def notification_object_def
        browser_globals_def browser_def start_def dummyRegistration_def)
  from subscribeToPush_pass_through [THEN conjunct1, rule_format, OF a]
  show "\<exists>f g'. [HostCall 3 [dummyOptions]] = trace (start ''granted'') @ [HostCall f [dummyOptions]]
         \<and> ?S f [dummyOptions] (globals (start ''granted''))
            = (HostPromise (Fulfilled dummySubscription), g')"
    by simp
  show h: "?S 3 [dummyOptions] (globals (start ''granted''))
      = (HostPromise (Fulfilled dummySubscription), browser_globals ''granted'')"
    by (simp add: browser_def start_def)
  have r: "subscribeToPush ?S dummyRegistration dummyOptions (start ''granted'')
      = (fst (subscribeToPush ?S dummyRegistration dummyOptions (start ''granted'')),
         snd (subscribeToPush ?S dummyRegistration dummyOptions (start ''granted'')))"
    by simp
  have t: "trace (snd (subscribeToPush ?S dummyRegistration dummyOptions (start ''granted'')))
      = trace (start ''granted'') @ [HostCall 3 [dummyOptions]]"
    by (simp add: registerServiceWorker_def registerServiceWorker_executor_def
        requestPermission_def requestPermission_executor_def subscribeToPush_def
        subscribeToPush_executor_def lookup_global_def notification_object_def
        browser_globals_def browser_def start_def dummyRegistration_def)
  from subscribeToPush_pass_through [THEN conjunct2, rule_format, OF conjI [OF r conjI [OF t h]]]
  show "fst (subscribeToPush ?S dummyRegistration dummyOptions (start ''granted''))
      = Returns (Fulfilled dummySubscription)"
    by simp
qed

text \<open>
  C8. A failure that is swallowed: when the promise of the host's
  \<open>Notification.requestPermission\<close> rejects, the promise of \<open>requestPermission\<close> never
  settles, since its \<open>.then\<close> has no second argument and no \<open>.catch(reject)\<close> follows.
  \<open>registerServiceWorker\<close>, whose chain ends in \<open>.catch(reject)\<close>, rejects when its host
  promise does.
\<close>

theorem requestPermission_swallows_host_rejection:
  "requestPermission (browser (Rejected (JError Error ''Permission error'')) Pending Pending)
       (start ''default'')
     = (Returns Pending, \<lparr>globals = browser_globals ''default'', trace = [HostCall 1 []]\<rparr>)
   \<and> registerServiceWorker (browser Pending (Rejected (JError Error ''Registration error'')) Pending)
       (JStr ''/sw.js'') (start ''default'')
     = (Returns (Rejected (JError Error ''Registration error'')),
        \<lparr>globals = browser_globals ''default'', trace = [HostCall 2 [JStr ''/sw.js'']]\<rparr>)"
  by (simp add: registerServiceWorker_def registerServiceWorker_executor_def
        requestPermission_def requestPermission_executor_def subscribeToPush_def
        subscribeToPush_executor_def lookup_global_def notification_object_def
        browser_globals_def browser_def start_def dummyRegistration_def)

text \<open>
  C9, as stated, fails for \<open>initializePushNotifications\<close>: called detached from the
  class it throws, since the read \<open>this.registerServiceWorker\<close> is not inside an
  executor or a callback.
\<close>

theorem detached_call_throws_counterexample:
  "call_initializePushNotifications None (JStr ''/sw.js'') dummyOptions (start ''default'')
     = (Throws (JError TypeError
          ''Cannot read properties of undefined (reading 'registerServiceWorker')''),
        start ''default'')"
  by (simp add: call_initializePushNotifications_def quoted_def)

text \<open>
  C9, amended. \<open>requestPermission\<close>, \<open>registerServiceWorker\<close> and \<open>subscribeToPush\<close>
  complete by returning a promise, for every host, every world and all arguments, and so
  does \<open>initializePushNotifications\<close> called on the class; called detached it throws the
  TypeError of the read on \<open>undefined\<close>. A \<open>null\<close> or \<open>undefined\<close> registration makes
  \<open>subscribeToPush\<close> return a promise rejected with the TypeError of the property read.
  Every throw in an executor is delivered as a rejection with the error thrown, in the
  world of the throw; the implications go through the places where the source can throw,
  in its order, with hypotheses on the host and the arguments only:
  \<^item> \<open>requestPermission\<close>: \<open>window\<close> has no binding; \<open>in\<close> on a \<open>window\<close> that is no object;
    \<open>Notification\<close> has no binding; the read of \<open>requestPermission\<close> on \<open>undefined\<close> or
    \<open>null\<close>; the call throws (the host function does, or the callee is no function); the
    call returns a value that has no \<open>then\<close> to call;
  \<^item> \<open>registerServiceWorker\<close>: \<open>navigator\<close> has no binding; \<open>in\<close> on a \<open>navigator\<close> that is
    no object; the read of \<open>register\<close> on a \<open>serviceWorker\<close> that is \<open>undefined\<close> or
    \<open>null\<close>; the call throws; the call returns no thenable;
  \<^item> \<open>subscribeToPush\<close>: the read of \<open>pushManager\<close> on \<open>undefined\<close> or \<open>null\<close>;
    \<open>Notification\<close> has no binding; the read of \<open>permission\<close> on \<open>undefined\<close> or \<open>null\<close>;
    the call throws; the call returns no thenable.
  The last conjunct is the missing global \<open>window\<close> once more, with its ReferenceError.
  The source's second reads of \<open>navigator\<close> and of \<open>registration.pushManager\<close> repeat a
  read that has succeeded, and by \<open>get_prop_after_in\<close> and \<open>get_prop_truthy\<close> the reads
  that follow them do not throw.
\<close>

theorem operations_return_promises:
  "(\<exists>p w'. requestPermission h w = (Returns p, w'))
   \<and> (\<exists>p w'. registerServiceWorker h url w = (Returns p, w'))
   \<and> (\<exists>p w'. subscribeToPush h reg opts w = (Returns p, w'))
   \<and> (\<exists>p w'. call_initializePushNotifications (Some (Pushmatic h)) url opts w = (Returns p, w'))
   \<and> call_initializePushNotifications None url opts w =
          (Throws (JError TypeError
             ''Cannot read properties of undefined (reading 'registerServiceWorker')''), w)
   \<and> subscribeToPush h JNull opts w =
          (Returns (Rejected (JError TypeError
             ''Cannot read properties of null (reading 'pushManager')'')), w)
   \<and> subscribeToPush h JUndefined opts w =
          (Returns (Rejected (JError TypeError
             ''Cannot read properties of undefined (reading 'pushManager')'')), w)
   \<and> (lookup_global ''window'' w = Inl e
         \<longrightarrow> requestPermission h w = (Returns (Rejected e), w))
   \<and> (lookup_global ''window'' w = Inr win \<and> in_op ''Notification'' win = Inl e
         \<longrightarrow> requestPermission h w = (Returns (Rejected e), w))
   \<and> (lookup_global ''window'' w = Inr win \<and> in_op ''Notification'' win = Inr True
         \<and> lookup_global ''Notification'' w = Inl e
         \<longrightarrow> requestPermission h w = (Returns (Rejected e), w))
   \<and> (lookup_global ''window'' w = Inr win \<and> in_op ''Notification'' win = Inr True
         \<and> lookup_global ''Notification'' w = Inr n \<and> get_prop n ''requestPermission'' = Inl e
         \<longrightarrow> requestPermission h w = (Returns (Rejected e), w))
   \<and> (lookup_global ''window'' w = Inr win \<and> in_op ''Notification'' win = Inr True
         \<and> lookup_global ''Notification'' w = Inr n \<and> get_prop n ''requestPermission'' = Inr f
         \<and> call_host h ''Notification.requestPermission'' f [] w = (HostThrows e, w')
         \<longrightarrow> requestPermission h w = (Returns (Rejected e), w'))
   \<and> (lookup_global ''window'' w = Inr win \<and> in_op ''Notification'' win = Inr True
         \<and> lookup_global ''Notification'' w = Inr n \<and> get_prop n ''requestPermission'' = Inr f
         \<and> call_host h ''Notification.requestPermission'' f [] w = (HostValue v, w')
         \<longrightarrow> requestPermission h w = (Returns (Rejected (no_then ''Notification.requestPermission'' v)), w'))
   \<and> (lookup_global ''navigator'' w = Inl e
         \<longrightarrow> registerServiceWorker h url w = (Returns (Rejected e), w))
   \<and> (lookup_global ''navigator'' w = Inr nav \<and> in_op ''serviceWorker'' nav = Inl e
         \<longrightarrow> registerServiceWorker h url w = (Returns (Rejected e), w))
   \<and> (lookup_global ''navigator'' w = Inr nav \<and> in_op ''serviceWorker'' nav = Inr True
         \<and> get_prop nav ''serviceWorker'' = Inr sw \<and> get_prop sw ''register'' = Inl e
         \<longrightarrow> registerServiceWorker h url w = (Returns (Rejected e), w))
   \<and> (lookup_global ''navigator'' w = Inr nav \<and> in_op ''serviceWorker'' nav = Inr True
         \<and> get_prop nav ''serviceWorker'' = Inr sw \<and> get_prop sw ''register'' = Inr f
         \<and> call_host h ''navigator.serviceWorker.register'' f [url] w = (HostThrows e, w')
         \<longrightarrow> registerServiceWorker h url w = (Returns (Rejected e), w'))
   \<and> (lookup_global ''navigator'' w = Inr nav \<and> in_op ''serviceWorker'' nav = Inr True
         \<and> get_prop nav ''serviceWorker'' = Inr sw \<and> get_prop sw ''register'' = Inr f
         \<and> call_host h ''navigator.serviceWorker.register'' f [url] w = (HostValue v, w')
         \<longrightarrow> registerServiceWorker h url w = (Returns (Rejected (no_then ''navigator.serviceWorker.register'' v)), w'))
   \<and> (get_prop reg ''pushManager'' = Inl e
         \<longrightarrow> subscribeToPush h reg opts w = (Returns (Rejected e), w))
   \<and> (get_prop reg ''pushManager'' = Inr pm \<and> truthy pm
         \<and> lookup_global ''Notification'' w = Inl e
         \<longrightarrow> subscribeToPush h reg opts w = (Returns (Rejected e), w))
   \<and> (get_prop reg ''pushManager'' = Inr pm \<and> truthy pm
         \<and> lookup_global ''Notification'' w = Inr n \<and> get_prop n ''permission'' = Inl e
         \<longrightarrow> subscribeToPush h reg opts w = (Returns (Rejected e), w))
   \<and> (get_prop reg ''pushManager'' = Inr pm \<and> truthy pm
         \<and> lookup_global ''Notification'' w = Inr n \<and> get_prop n ''permission'' = Inr (JStr ''granted'')
         \<and> get_prop pm ''subscribe'' = Inr f
         \<and> call_host h ''registration.pushManager.subscribe'' f [opts] w = (HostThrows e, w')
         \<longrightarrow> subscribeToPush h reg opts w = (Returns (Rejected e), w'))
   \<and> (get_prop reg ''pushManager'' = Inr pm \<and> truthy pm
         \<and> lookup_global ''Notification'' w = Inr n \<and> get_prop n ''permission'' = Inr (JStr ''granted'')
         \<and> get_prop pm ''subscribe'' = Inr f
         \<and> call_host h ''registration.pushManager.subscribe'' f [opts] w = (HostValue v, w')
         \<longrightarrow> subscribeToPush h reg opts w = (Returns (Rejected (no_then ''registration.pushManager.subscribe'' v)), w'))
   \<and> (map_of (globals w) ''window'' = None
         \<longrightarrow> requestPermission h w =
          (Returns (Rejected (JError ReferenceError ''window is not defined'')), w))"
proof (intro conjI impI)
  show "\<exists>p w'. requestPermission h w = (Returns p, w')"
    by (rule requestPermission_returns)
  show "\<exists>p w'. registerServiceWorker h url w = (Returns p, w')"
    by (rule registerServiceWorker_returns)
  show "\<exists>p w'. subscribeToPush h reg opts w = (Returns p, w')"
    by (rule subscribeToPush_returns)
  show "\<exists>p w'. call_initializePushNotifications (Some (Pushmatic h)) url opts w = (Returns p, w')"
    unfolding call_initializePushNotifications_def option.case
    by (rule initialize_returns) (simp add: Pushmatic_def registerServiceWorker_returns)
  show "call_initializePushNotifications None url opts w =
           (Throws (JError TypeError
              ''Cannot read properties of undefined (reading 'registerServiceWorker')''), w)"
    by (simp add: call_initializePushNotifications_def quoted_def)
  show "subscribeToPush h JNull opts w =
           (Returns (Rejected (JError TypeError
              ''Cannot read properties of null (reading 'pushManager')'')), w)"
    by (simp add: subscribeToPush_def subscribeToPush_executor_def quoted_def)
  show "subscribeToPush h JUndefined opts w =
           (Returns (Rejected (JError TypeError
              ''Cannot read properties of undefined (reading 'pushManager')'')), w)"
    by (simp add: subscribeToPush_def subscribeToPush_executor_def quoted_def)
next
  assume "lookup_global ''window'' w = Inl e"
  then show "requestPermission h w = (Returns (Rejected e), w)"
    by (simp add: requestPermission_def requestPermission_executor_def)
next
  assume "lookup_global ''window'' w = Inr win \<and> in_op ''Notification'' win = Inl e"
  then show "requestPermission h w = (Returns (Rejected e), w)"
    by (simp add: requestPermission_def requestPermission_executor_def)
next
  assume "lookup_global ''window'' w = Inr win \<and> in_op ''Notification'' win = Inr True
          \<and> lookup_global ''Notification'' w = Inl e"
  then show "requestPermission h w = (Returns (Rejected e), w)"
    by (simp add: requestPermission_def requestPermission_executor_def)
next
  assume "lookup_global ''window'' w = Inr win \<and> in_op ''Notification'' win = Inr True
          \<and> lookup_global ''Notification'' w = Inr n \<and> get_prop n ''requestPermission'' = Inl e"
  then show "requestPermission h w = (Returns (Rejected e), w)"
    by (simp add: requestPermission_def requestPermission_executor_def)
next
  assume "lookup_global ''window'' w = Inr win \<and> in_op ''Notification'' win = Inr True
          \<and> lookup_global ''Notification'' w = Inr n \<and> get_prop n ''requestPermission'' = Inr f
          \<and> call_host h ''Notification.requestPermission'' f [] w = (HostThrows e, w')"
  then show "requestPermission h w = (Returns (Rejected e), w')"
    by (simp add: requestPermission_def requestPermission_executor_def)
next
  assume "lookup_global ''window'' w = Inr win \<and> in_op ''Notification'' win = Inr True
          \<and> lookup_global ''Notification'' w = Inr n \<and> get_prop n ''requestPermission'' = Inr f
          \<and> call_host h ''Notification.requestPermission'' f [] w = (HostValue v, w')"
  then show "requestPermission h w = (Returns (Rejected (no_then ''Notification.requestPermission'' v)), w')"
    by (simp add: requestPermission_def requestPermission_executor_def)
next
  assume "lookup_global ''navigator'' w = Inl e"
  then show "registerServiceWorker h url w = (Returns (Rejected e), w)"
    by (simp add: registerServiceWorker_def registerServiceWorker_executor_def)
next
  assume "lookup_global ''navigator'' w = Inr nav \<and> in_op ''serviceWorker'' nav = Inl e"
  then show "registerServiceWorker h url w = (Returns (Rejected e), w)"
    by (simp add: registerServiceWorker_def registerServiceWorker_executor_def)
next
  assume "lookup_global ''navigator'' w = Inr nav \<and> in_op ''serviceWorker'' nav = Inr True
          \<and> get_prop nav ''serviceWorker'' = Inr sw \<and> get_prop sw ''register'' = Inl e"
  then show "registerServiceWorker h url w = (Returns (Rejected e), w)"
    by (simp add: registerServiceWorker_def registerServiceWorker_executor_def)
next
  assume "lookup_global ''navigator'' w = Inr nav \<and> in_op ''serviceWorker'' nav = Inr True
          \<and> get_prop nav ''serviceWorker'' = Inr sw \<and> get_prop sw ''register'' = Inr f
          \<and> call_host h ''navigator.serviceWorker.register'' f [url] w = (HostThrows e, w')"
  then show "registerServiceWorker h url w = (Returns (Rejected e), w')"
    by (simp add: registerServiceWorker_def registerServiceWorker_executor_def)
next
  assume "lookup_global ''navigator'' w = Inr nav \<and> in_op ''serviceWorker'' nav = Inr True
          \<and> get_prop nav ''serviceWorker'' = Inr sw \<and> get_prop sw ''register'' = Inr f
          \<and> call_host h ''navigator.serviceWorker.register'' f [url] w = (HostValue v, w')"
  then show "registerServiceWorker h url w = (Returns (Rejected (no_then ''navigator.serviceWorker.register'' v)), w')"
    by (simp add: registerServiceWorker_def registerServiceWorker_executor_def)
next
  assume "get_prop reg ''pushManager'' = Inl e"
  then show "subscribeToPush h reg opts w = (Returns (Rejected e), w)"
    by (simp add: subscribeToPush_def subscribeToPush_executor_def)
next
  assume "get_prop reg ''pushManager'' = Inr pm \<and> truthy pm
          \<and> lookup_global ''Notification'' w = Inl e"
  then show "subscribeToPush h reg opts w = (Returns (Rejected e), w)"
    by (simp add: subscribeToPush_def subscribeToPush_executor_def)
next
  assume "get_prop reg ''pushManager'' = Inr pm \<and> truthy pm
          \<and> lookup_global ''Notification'' w = Inr n \<and> get_prop n ''permission'' = Inl e"
  then show "subscribeToPush h reg opts w = (Returns (Rejected e), w)"
    by (simp add: subscribeToPush_def subscribeToPush_executor_def)
next
  assume "get_prop reg ''pushManager'' = Inr pm \<and> truthy pm
          \<and> lookup_global ''Notification'' w = Inr n \<and> get_prop n ''permission'' = Inr (JStr ''granted'')
          \<and> get_prop pm ''subscribe'' = Inr f
          \<and> call_host h ''registration.pushManager.subscribe'' f [opts] w = (HostThrows e, w')"
  then show "subscribeToPush h reg opts w = (Returns (Rejected e), w')"
    by (simp add: subscribeToPush_def subscribeToPush_executor_def)
next
  assume "get_prop reg ''pushManager'' = Inr pm \<and> truthy pm
          \<and> lookup_global ''Notification'' w = Inr n \<and> get_prop n ''permission'' = Inr (JStr ''granted'')
          \<and> get_prop pm ''subscribe'' = Inr f
          \<and> call_host h ''registration.pushManager.subscribe'' f [opts] w = (HostValue v, w')"
  then show "subscribeToPush h reg opts w = (Returns (Rejected (no_then ''registration.pushManager.subscribe'' v)), w')"
    by (simp add: subscribeToPush_def subscribeToPush_executor_def)
next
  assume "map_of (globals w) ''window'' = None"
  then show "requestPermission h w =
           (Returns (Rejected (JError ReferenceError ''window is not defined'')), w)"
    by (simp add: requestPermission_def requestPermission_executor_def lookup_global_def)
qed

text \<open>
  One host for each implication, in their order: no globals at all; \<open>window\<close> bound to
  \<open>undefined\<close>; a \<open>window\<close> with \<open>Notification\<close> where the identifier \<open>Notification\<close> has no
  binding; \<open>Notification\<close> bound to \<open>null\<close>; to \<open>{}\<close>; a host whose functions return
  \<open>undefined\<close>; then the same for \<open>navigator\<close>, with a \<open>serviceWorker\<close> property whose value
  is \<open>undefined\<close> and one that is \<open>{}\<close>; then a \<open>null\<close> registration, no \<open>Notification\<close>,
  \<open>Notification\<close> bound to \<open>null\<close>, the registration \<open>{pushManager: {}}\<close> of the test
  suite, and the host whose functions return \<open>undefined\<close>.
\<close>

theorem operations_return_promises_witness:
  "requestPermission (browser Pending Pending Pending) \<lparr>globals = [], trace = []\<rparr>
      = (Returns (Rejected (JError ReferenceError ''window is not defined'')), \<lparr>globals = [], trace = []\<rparr>)
   \<and> (\<exists>msg. requestPermission (browser Pending Pending Pending) \<lparr>globals = [(''window'', JUndefined)], trace = []\<rparr>
      = (Returns (Rejected (JError TypeError msg)), \<lparr>globals = [(''window'', JUndefined)], trace = []\<rparr>))
   \<and> requestPermission (browser Pending Pending Pending) \<lparr>globals = [(''window'', JObject [(''Notification'', notification_object ''default'')])], trace = []\<rparr>
      = (Returns (Rejected (JError ReferenceError ''Notification is not defined'')), \<lparr>globals = [(''window'', JObject [(''Notification'', notification_object ''default'')])], trace = []\<rparr>)
   \<and> requestPermission (browser Pending Pending Pending) \<lparr>globals = [(''window'', JObject [(''Notification'', notification_object ''default'')]), (''Notification'', JNull)], trace = []\<rparr>
      = (Returns (Rejected (JError TypeError ''Cannot read properties of null (reading 'requestPermission')'')), \<lparr>globals = [(''window'', JObject [(''Notification'', notification_object ''default'')]), (''Notification'', JNull)], trace = []\<rparr>)
   \<and> requestPermission (browser Pending Pending Pending) \<lparr>globals = [(''window'', JObject [(''Notification'', notification_object ''default'')]), (''Notification'', JObject [])], trace = []\<rparr>
      = (Returns (Rejected (JError TypeError ''Notification.requestPermission is not a function'')), \<lparr>globals = [(''window'', JObject [(''Notification'', notification_object ''default'')]), (''Notification'', JObject [])], trace = []\<rparr>)
   \<and> requestPermission callback_style_host (start ''default'')
      = (Returns (Rejected (JError TypeError ''Cannot read properties of undefined (reading 'then')'')), \<lparr>globals = browser_globals ''default'', trace = [HostCall 1 []]\<rparr>)
   \<and> registerServiceWorker (browser Pending Pending Pending) (JStr ''/sw.js'') \<lparr>globals = [], trace = []\<rparr>
      = (Returns (Rejected (JError ReferenceError ''navigator is not defined'')), \<lparr>globals = [], trace = []\<rparr>)
   \<and> (\<exists>msg. registerServiceWorker (browser Pending Pending Pending) (JStr ''/sw.js'') \<lparr>globals = [(''navigator'', JUndefined)], trace = []\<rparr>
      = (Returns (Rejected (JError TypeError msg)), \<lparr>globals = [(''navigator'', JUndefined)], trace = []\<rparr>))
   \<and> registerServiceWorker (browser Pending Pending Pending) (JStr ''/sw.js'') \<lparr>globals = [(''navigator'', JObject [(''serviceWorker'', JUndefined)])], trace = []\<rparr>
      = (Returns (Rejected (JError TypeError ''Cannot read properties of undefined (reading 'register')'')), \<lparr>globals = [(''navigator'', JObject [(''serviceWorker'', JUndefined)])], trace = []\<rparr>)
   \<and> registerServiceWorker (browser Pending Pending Pending) (JStr ''/sw.js'') \<lparr>globals = [(''navigator'', JObject [(''serviceWorker'', JObject [])])], trace = []\<rparr>
      = (Returns (Rejected (JError TypeError ''navigator.serviceWorker.register is not a function'')), \<lparr>globals = [(''navigator'', JObject [(''serviceWorker'', JObject [])])], trace = []\<rparr>)
   \<and> registerServiceWorker callback_style_host (JStr ''/sw.js'') (start ''default'')
      = (Returns (Rejected (JError TypeError ''Cannot read properties of undefined (reading 'then')'')), \<lparr>globals = browser_globals ''default'', trace = [HostCall 2 [JStr ''/sw.js'']]\<rparr>)
   \<and> subscribeToPush (browser Pending Pending Pending) JNull dummyOptions (start ''granted'')
      = (Returns (Rejected (JError TypeError ''Cannot read properties of null (reading 'pushManager')'')), (start ''granted''))
   \<and> subscribeToPush (browser Pending Pending Pending) dummyRegistration dummyOptions \<lparr>globals = [], trace = []\<rparr>
      = (Returns (Rejected (JError ReferenceError ''Notification is not defined'')), \<lparr>globals = [], trace = []\<rparr>)
   \<and> subscribeToPush (browser Pending Pending Pending) dummyRegistration dummyOptions \<lparr>globals = [(''Notification'', JNull)], trace = []\<rparr>
      = (Returns (Rejected (JError TypeError ''Cannot read properties of null (reading 'permission')'')), \<lparr>globals = [(''Notification'', JNull)], trace = []\<rparr>)
   \<and> subscribeToPush (browser Pending Pending Pending) (JObject [(''pushManager'', JObject [])]) dummyOptions (start ''granted'')
      = (Returns (Rejected (JError TypeError ''registration.pushManager.subscribe is not a function'')), (start ''granted''))
   \<and> subscribeToPush callback_style_host dummyRegistration dummyOptions (start ''granted'')
      = (Returns (Rejected (JError TypeError ''Cannot read properties of undefined (reading 'then')'')), \<lparr>globals = browser_globals ''granted'', trace = [HostCall 3 [dummyOptions]]\<rparr>)
   \<and> requestPermission callback_style_host \<lparr>globals = [], trace = []\<rparr>
      = (Returns (Rejected (JError ReferenceError ''window is not defined'')), \<lparr>globals = [], trace = []\<rparr>)"
proof (intro conjI)
  have h1: "lookup_global ''window'' \<lparr>globals = [], trace = []\<rparr> = Inl (JError ReferenceError ''window is not defined'')"
    by (simp add: lookup_global_def quoted_def notification_object_def browser_globals_def
        start_def dummyRegistration_def callback_style_host_def)
  from operations_return_promises [THEN conjunct2, THEN conjunct2, THEN conjunct2, THEN conjunct2, THEN conjunct2, THEN conjunct2, THEN conjunct2, THEN conjunct1, rule_format, OF h1]
  show "requestPermission (browser Pending Pending Pending) \<lparr>globals = [], trace = []\<rparr>
      = (Returns (Rejected (JError ReferenceError ''window is not defined'')), \<lparr>globals = [], trace = []\<rparr>)"
    .
  have h2: "lookup_global ''window'' \<lparr>globals = [(''window'', JUndefined)], trace = []\<rparr> = Inr JUndefined \<and> in_op ''Notification'' JUndefined = Inl (JError TypeError ''right-hand side of in is not an object'')"
    by (simp add: lookup_global_def quoted_def notification_object_def browser_globals_def
        start_def dummyRegistration_def callback_style_host_def)
  from operations_return_promises [THEN conjunct2, THEN conjunct2, THEN conjunct2, THEN conjunct2, THEN conjunct2, THEN conjunct2, THEN conjunct2, THEN conjunct2, THEN conjunct1, rule_format, OF h2]
  show "(\<exists>msg. requestPermission (browser Pending Pending Pending) \<lparr>globals = [(''window'', JUndefined)], trace = []\<rparr>
      = (Returns (Rejected (JError TypeError msg)), \<lparr>globals = [(''window'', JUndefined)], trace = []\<rparr>))"
    by blast
  have h3: "lookup_global ''window'' \<lparr>globals = [(''window'', JObject [(''Notification'', notification_object ''default'')])], trace = []\<rparr> = Inr (JObject [(''Notification'', notification_object ''default'')])
      \<and> in_op ''Notification'' (JObject [(''Notification'', notification_object ''default'')]) = Inr True
      \<and> lookup_global ''Notification'' \<lparr>globals = [(''window'', JObject [(''Notification'', notification_object ''default'')])], trace = []\<rparr> = Inl (JError ReferenceError ''Notification is not defined'')"
    by (simp add: lookup_global_def quoted_def notification_object_def browser_globals_def
        start_def dummyRegistration_def callback_style_host_def)
  from operations_return_promises [THEN conjunct2, THEN conjunct2, THEN conjunct2, THEN conjunct2, THEN conjunct2, THEN conjunct2, THEN conjunct2, THEN conjunct2, THEN conjunct2, THEN conjunct1, rule_format, OF h3]
  show "requestPermission (browser Pending Pending Pending) \<lparr>globals = [(''window'', JObject [(''Notification'', notification_object ''default'')])], trace = []\<rparr>
      = (Returns (Rejected (JError ReferenceError ''Notification is not defined'')), \<lparr>globals = [(''window'', JObject [(''Notification'', notification_object ''default'')])], trace = []\<rparr>)"
    .
  have h4: "lookup_global ''window'' \<lparr>globals = [(''window'', JObject [(''Notification'', notification_object ''default'')]), (''Notification'', JNull)], trace = []\<rparr> = Inr (JObject [(''Notification'', notification_object ''default'')])
      \<and> in_op ''Notification'' (JObject [(''Notification'', notification_object ''default'')]) = Inr True
      \<and> lookup_global ''Notification'' \<lparr>globals = [(''window'', JObject [(''Notification'', notification_object ''default'')]), (''Notification'', JNull)], trace = []\<rparr> = Inr JNull \<and> get_prop JNull ''requestPermission'' = Inl (JError TypeError ''Cannot read properties of null (reading 'requestPermission')'')"
    by (simp add: lookup_global_def quoted_def notification_object_def browser_globals_def
        start_def dummyRegistration_def callback_style_host_def)
  from operations_return_promises [THEN conjunct2, THEN conjunct2, THEN conjunct2, THEN conjunct2, THEN conjunct2, THEN conjunct2, THEN conjunct2, THEN conjunct2, THEN conjunct2, THEN conjunct2, THEN conjunct1, rule_format, OF h4]
  show "requestPermission (browser Pending Pending Pending) \<lparr>globals = [(''window'', JObject [(''Notification'', notification_object ''default'')]), (''Notification'', JNull)], trace = []\<rparr>
      = (Returns (Rejected (JError TypeError ''Cannot read properties of null (reading 'requestPermission')'')), \<lparr>globals = [(''window'', JObject [(''Notification'', notification_object ''default'')]), (''Notification'', JNull)], trace = []\<rparr>)"
    .
  have h5: "lookup_global ''window'' \<lparr>globals = [(''window'', JObject [(''Notification'', notification_object ''default'')]), (''Notification'', JObject [])], trace = []\<rparr> = Inr (JObject [(''Notification'', notification_object ''default'')])
      \<and> in_op ''Notification'' (JObject [(''Notification'', notification_object ''default'')]) = Inr True
      \<and> lookup_global ''Notification'' \<lparr>globals = [(''window'', JObject [(''Notification'', notification_object ''default'')]), (''Notification'', JObject [])], trace = []\<rparr> = Inr (JObject []) \<and> get_prop (JObject []) ''requestPermission'' = Inr JUndefined
      \<and> call_host (browser Pending Pending Pending) ''Notification.requestPermission'' JUndefined [] \<lparr>globals = [(''window'', JObject [(''Notification'', notification_object ''default'')]), (''Notification'', JObject [])], trace = []\<rparr> = (HostThrows (JError TypeError ''Notification.requestPermission is not a function''), \<lparr>globals = [(''window'', JObject [(''Notification'', notification_object ''default'')]), (''Notification'', JObject [])], trace = []\<rparr>)"
    by (simp add: lookup_global_def quoted_def notification_object_def browser_globals_def
        start_def dummyRegistration_def callback_style_host_def)
  from operations_return_promises [THEN conjunct2, THEN conjunct2, THEN conjunct2, THEN conjunct2, THEN conjunct2, THEN conjunct2, THEN conjunct2, THEN conjunct2, THEN conjunct2, THEN conjunct2, THEN conjunct2, THEN conjunct1, rule_format, OF h5]
  show "requestPermission (browser Pending Pending Pending) \<lparr>globals = [(''window'', JObject [(''Notification'', notification_object ''default'')]), (''Notification'', JObject [])], trace = []\<rparr>
      = (Returns (Rejected (JError TypeError ''Notification.requestPermission is not a function'')), \<lparr>globals = [(''window'', JObject [(''Notification'', notification_object ''default'')]), (''Notification'', JObject [])], trace = []\<rparr>)"
    .
  have h6: "lookup_global ''window'' (start ''default'') = Inr (JObject [(''Notification'', notification_object ''default'')])
      \<and> in_op ''Notification'' (JObject [(''Notification'', notification_object ''default'')]) = Inr True
      \<and> lookup_global ''Notification'' (start ''default'') = Inr (notification_object ''default'')
      \<and> get_prop (notification_object ''default'') ''requestPermission'' = Inr (JFunction 1)
      \<and> call_host callback_style_host ''Notification.requestPermission'' (JFunction 1) [] (start ''default'') = (HostValue JUndefined, \<lparr>globals = browser_globals ''default'', trace = [HostCall 1 []]\<rparr>)"
    by (simp add: lookup_global_def quoted_def notification_object_def browser_globals_def
        start_def dummyRegistration_def callback_style_host_def)
  from operations_return_promises [THEN conjunct2, THEN conjunct2, THEN conjunct2, THEN conjunct2, THEN conjunct2, THEN conjunct2, THEN conjunct2, THEN conjunct2, THEN conjunct2, THEN conjunct2, THEN conjunct2, THEN conjunct2, THEN conjunct1, rule_format, OF h6]
  show "requestPermission callback_style_host (start ''default'')
      = (Returns (Rejected (JError TypeError ''Cannot read properties of undefined (reading 'then')'')), \<lparr>globals = browser_globals ''default'', trace = [HostCall 1 []]\<rparr>)"
    by (simp add: no_then_def quoted_def)
  have h7: "lookup_global ''navigator'' \<lparr>globals = [], trace = []\<rparr> = Inl (JError ReferenceError ''navigator is not defined'')"
    by (simp add: lookup_global_def quoted_def notification_object_def browser_globals_def
        start_def dummyRegistration_def callback_style_host_def)
  from operations_return_promises [THEN conjunct2, THEN conjunct2, THEN conjunct2, THEN conjunct2, THEN conjunct2, THEN conjunct2, THEN conjunct2, THEN conjunct2, THEN conjunct2, THEN conjunct2, THEN conjunct2, THEN conjunct2, THEN conjunct2, THEN conjunct1, rule_format, OF h7]
  show "registerServiceWorker (browser Pending Pending Pending) (JStr ''/sw.js'') \<lparr>globals = [], trace = []\<rparr>
      = (Returns (Rejected (JError ReferenceError ''navigator is not defined'')), \<lparr>globals = [], trace = []\<rparr>)"
    .
  have h8: "lookup_global ''navigator'' \<lparr>globals = [(''navigator'', JUndefined)], trace = []\<rparr> = Inr JUndefined \<and> in_op ''serviceWorker'' JUndefined = Inl (JError TypeError ''right-hand side of in is not an object'')"
    by (simp add: lookup_global_def quoted_def notification_object_def browser_globals_def
        start_def dummyRegistration_def callback_style_host_def)
  from operations_return_promises [THEN conjunct2, THEN conjunct2, THEN conjunct2, THEN conjunct2, THEN conjunct2, THEN conjunct2, THEN conjunct2, THEN conjunct2, THEN conjunct2, THEN conjunct2, THEN conjunct2, THEN conjunct2, THEN conjunct2, THEN conjunct2, THEN conjunct1, rule_format, OF h8]
  show "(\<exists>msg. registerServiceWorker (browser Pending Pending Pending) (JStr ''/sw.js'') \<lparr>globals = [(''navigator'', JUndefined)], trace = []\<rparr>
      = (Returns (Rejected (JError TypeError msg)), \<lparr>globals = [(''navigator'', JUndefined)], trace = []\<rparr>))"
    by blast
  have h9: "lookup_global ''navigator'' \<lparr>globals = [(''navigator'', JObject [(''serviceWorker'', JUndefined)])], trace = []\<rparr> = Inr (JObject [(''serviceWorker'', JUndefined)]) \<and> in_op ''serviceWorker'' (JObject [(''serviceWorker'', JUndefined)]) = Inr True
      \<and> get_prop (JObject [(''serviceWorker'', JUndefined)]) ''serviceWorker'' = Inr JUndefined \<and> get_prop JUndefined ''register'' = Inl (JError TypeError ''Cannot read properties of undefined (reading 'register')'')"
    by (simp add: lookup_global_def quoted_def notification_object_def browser_globals_def
        start_def dummyRegistration_def callback_style_host_def)
  from operations_return_promises [THEN conjunct2, THEN conjunct2, THEN conjunct2, THEN conjunct2, THEN conjunct2, THEN conjunct2, THEN conjunct2, THEN conjunct2, THEN conjunct2, THEN conjunct2, THEN conjunct2, THEN conjunct2, THEN conjunct2, THEN conjunct2, THEN conjunct2, THEN conjunct1, rule_format, OF h9]
  show "registerServiceWorker (browser Pending Pending Pending) (JStr ''/sw.js'') \<lparr>globals = [(''navigator'', JObject [(''serviceWorker'', JUndefined)])], trace = []\<rparr>
      = (Returns (Rejected (JError TypeError ''Cannot read properties of undefined (reading 'register')'')), \<lparr>globals = [(''navigator'', JObject [(''serviceWorker'', JUndefined)])], trace = []\<rparr>)"
    .
  have h10: "lookup_global ''navigator'' \<lparr>globals = [(''navigator'', JObject [(''serviceWorker'', JObject [])])], trace = []\<rparr> = Inr (JObject [(''serviceWorker'', JObject [])]) \<and> in_op ''serviceWorker'' (JObject [(''serviceWorker'', JObject [])]) = Inr True
      \<and> get_prop (JObject [(''serviceWorker'', JObject [])]) ''serviceWorker'' = Inr (JObject []) \<and> get_prop (JObject []) ''register'' = Inr JUndefined
      \<and> call_host (browser Pending Pending Pending) ''navigator.serviceWorker.register'' JUndefined [JStr ''/sw.js''] \<lparr>globals = [(''navigator'', JObject [(''serviceWorker'', JObject [])])], trace = []\<rparr> = (HostThrows (JError TypeError ''navigator.serviceWorker.register is not a function''), \<lparr>globals = [(''navigator'', JObject [(''serviceWorker'', JObject [])])], trace = []\<rparr>)"
    by (simp add: lookup_global_def quoted_def notification_object_def browser_globals_def
        start_def dummyRegistration_def callback_style_host_def)
  from operations_return_promises [THEN conjunct2, THEN conjunct2, THEN conjunct2, THEN conjunct2, THEN conjunct2, THEN conjunct2, THEN conjunct2, THEN conjunct2, THEN conjunct2, THEN conjunct2, THEN conjunct2, THEN conjunct2, THEN conjunct2, THEN conjunct2, THEN conjunct2, THEN conjunct2, THEN conjunct1, rule_format, OF h10]
  show "registerServiceWorker (browser Pending Pending Pending) (JStr ''/sw.js'') \<lparr>globals = [(''navigator'', JObject [(''serviceWorker'', JObject [])])], trace = []\<rparr>
      = (Returns (Rejected (JError TypeError ''navigator.serviceWorker.register is not a function'')), \<lparr>globals = [(''navigator'', JObject [(''serviceWorker'', JObject [])])], trace = []\<rparr>)"
    .
  have h11: "lookup_global ''navigator'' (start ''default'') = Inr (JObject [(''serviceWorker'', JObject [(''register'', JFunction 2)])]) \<and> in_op ''serviceWorker'' (JObject [(''serviceWorker'', JObject [(''register'', JFunction 2)])]) = Inr True
      \<and> get_prop (JObject [(''serviceWorker'', JObject [(''register'', JFunction 2)])]) ''serviceWorker'' = Inr (JObject [(''register'', JFunction 2)])
      \<and> get_prop (JObject [(''register'', JFunction 2)]) ''register'' = Inr (JFunction 2)
      \<and> call_host callback_style_host ''navigator.serviceWorker.register'' (JFunction 2) [JStr ''/sw.js''] (start ''default'') = (HostValue JUndefined, \<lparr>globals = browser_globals ''default'', trace = [HostCall 2 [JStr ''/sw.js'']]\<rparr>)"
    by (simp add: lookup_global_def quoted_def notification_object_def browser_globals_def
        start_def dummyRegistration_def callback_style_host_def)
  from operations_return_promises [THEN conjunct2, THEN conjunct2, THEN conjunct2, THEN conjunct2, THEN conjunct2, THEN conjunct2, THEN conjunct2, THEN conjunct2, THEN conjunct2, THEN conjunct2, THEN conjunct2, THEN conjunct2, THEN conjunct2, THEN conjunct2, THEN conjunct2, THEN conjunct2, THEN conjunct2, THEN conjunct1, rule_format, OF h11]
  show "registerServiceWorker callback_style_host (JStr ''/sw.js'') (start ''default'')
      = (Returns (Rejected (JError TypeError ''Cannot read properties of undefined (reading 'then')'')), \<lparr>globals = browser_globals ''default'', trace = [HostCall 2 [JStr ''/sw.js'']]\<rparr>)"
    by (simp add: no_then_def quoted_def)
  have h12: "get_prop JNull ''pushManager'' = Inl (JError TypeError ''Cannot read properties of null (reading 'pushManager')'')"
    by (simp add: lookup_global_def quoted_def notification_object_def browser_globals_def
        start_def dummyRegistration_def callback_style_host_def)
  from operations_return_promises [THEN conjunct2, THEN conjunct2, THEN conjunct2, THEN conjunct2, THEN conjunct2, THEN conjunct2, THEN conjunct2, THEN conjunct2, THEN conjunct2, THEN conjunct2, THEN conjunct2, THEN conjunct2, THEN conjunct2, THEN conjunct2, THEN conjunct2, THEN conjunct2, THEN conjunct2, THEN conjunct2, THEN conjunct1, rule_format, OF h12]
  show "subscribeToPush (browser Pending Pending Pending) JNull dummyOptions (start ''granted'')
      = (Returns (Rejected (JError TypeError ''Cannot read properties of null (reading 'pushManager')'')), (start ''granted''))"
    .
  have h13: "get_prop dummyRegistration ''pushManager'' = Inr (JObject [(''subscribe'', JFunction 3)]) \<and> truthy (JObject [(''subscribe'', JFunction 3)])
      \<and> lookup_global ''Notification'' \<lparr>globals = [], trace = []\<rparr> = Inl (JError ReferenceError ''Notification is not defined'')"
    by (simp add: lookup_global_def quoted_def notification_object_def browser_globals_def
        start_def dummyRegistration_def callback_style_host_def)
  from operations_return_promises [THEN conjunct2, THEN conjunct2, THEN conjunct2, THEN conjunct2, THEN conjunct2, THEN conjunct2, THEN conjunct2, THEN conjunct2, THEN conjunct2, THEN conjunct2, THEN conjunct2, THEN conjunct2, THEN conjunct2, THEN conjunct2, THEN conjunct2, THEN conjunct2, THEN conjunct2, THEN conjunct2, THEN conjunct2, THEN conjunct1, rule_format, OF h13]
  show "subscribeToPush (browser Pending Pending Pending) dummyRegistration dummyOptions \<lparr>globals = [], trace = []\<rparr>
      = (Returns (Rejected (JError ReferenceError ''Notification is not defined'')), \<lparr>globals = [], trace = []\<rparr>)"
    .
  have h14: "get_prop dummyRegistration ''pushManager'' = Inr (JObject [(''subscribe'', JFunction 3)]) \<and> truthy (JObject [(''subscribe'', JFunction 3)])
      \<and> lookup_global ''Notification'' \<lparr>globals = [(''Notification'', JNull)], trace = []\<rparr> = Inr JNull \<and> get_prop JNull ''permission'' = Inl (JError TypeError ''Cannot read properties of null (reading 'permission')'')"
    by (simp add: lookup_global_def quoted_def notification_object_def browser_globals_def
        start_def dummyRegistration_def callback_style_host_def)
  from operations_return_promises [THEN conjunct2, THEN conjunct2, THEN conjunct2, THEN conjunct2, THEN conjunct2, THEN conjunct2, THEN conjunct2, THEN conjunct2, THEN conjunct2, THEN conjunct2, THEN conjunct2, THEN conjunct2, THEN conjunct2, THEN conjunct2, THEN conjunct2, THEN conjunct2, THEN conjunct2, THEN conjunct2, THEN conjunct2, THEN conjunct2, THEN conjunct1, rule_format, OF h14]
  show "subscribeToPush (browser Pending Pending Pending) dummyRegistration dummyOptions \<lparr>globals = [(''Notification'', JNull)], trace = []\<rparr>
      = (Returns (Rejected (JError TypeError ''Cannot read properties of null (reading 'permission')'')), \<lparr>globals = [(''Notification'', JNull)], trace = []\<rparr>)"
    .
  have h15: "get_prop (JObject [(''pushManager'', JObject [])]) ''pushManager'' = Inr (JObject []) \<and> truthy (JObject [])
      \<and> lookup_global ''Notification'' (start ''granted'') = Inr (notification_object ''granted'')
      \<and> get_prop (notification_object ''granted'') ''permission'' = Inr (JStr ''granted'')
      \<and> get_prop (JObject []) ''subscribe'' = Inr JUndefined
      \<and> call_host (browser Pending Pending Pending) ''registration.pushManager.subscribe'' JUndefined [dummyOptions] (start ''granted'') = (HostThrows (JError TypeError ''registration.pushManager.subscribe is not a function''), (start ''granted''))"
    by (simp add: lookup_global_def quoted_def notification_object_def browser_globals_def
        start_def dummyRegistration_def callback_style_host_def)
  from operations_return_promises [THEN conjunct2, THEN conjunct2, THEN conjunct2, THEN conjunct2, THEN conjunct2, THEN conjunct2, THEN conjunct2, THEN conjunct2, THEN conjunct2, THEN conjunct2, THEN conjunct2, THEN conjunct2, THEN conjunct2, THEN conjunct2, THEN conjunct2, THEN conjunct2, THEN conjunct2, THEN conjunct2, THEN conjunct2, THEN conjunct2, THEN conjunct2, THEN conjunct1, rule_format, OF h15]
  show "subscribeToPush (browser Pending Pending Pending) (JObject [(''pushManager'', JObject [])]) dummyOptions (start ''granted'')
      = (Returns (Rejected (JError TypeError ''registration.pushManager.subscribe is not a function'')), (start ''granted''))"
    .
  have h16: "get_prop dummyRegistration ''pushManager'' = Inr (JObject [(''subscribe'', JFunction 3)]) \<and> truthy (JObject [(''subscribe'', JFunction 3)])
      \<and> lookup_global ''Notification'' (start ''granted'') = Inr (notification_object ''granted'')
      \<and> get_prop (notification_object ''granted'') ''permission'' = Inr (JStr ''granted'')
      \<and> get_prop (JObject [(''subscribe'', JFunction 3)]) ''subscribe'' = Inr (JFunction 3)
      \<and> call_host callback_style_host ''registration.pushManager.subscribe'' (JFunction 3) [dummyOptions] (start ''granted'') = (HostValue JUndefined, \<lparr>globals = browser_globals ''granted'', trace = [HostCall 3 [dummyOptions]]\<rparr>)"
    by (simp add: lookup_global_def quoted_def notification_object_def browser_globals_def
        start_def dummyRegistration_def callback_style_host_def)
  from operations_return_promises [THEN conjunct2, THEN conjunct2, THEN conjunct2, THEN conjunct2, THEN conjunct2, THEN conjunct2, THEN conjunct2, THEN conjunct2, THEN conjunct2, THEN conjunct2, THEN conjunct2, THEN conjunct2, THEN conjunct2, THEN conjunct2, THEN conjunct2, THEN conjunct2, THEN conjunct2, THEN conjunct2, THEN conjunct2, THEN conjunct2, THEN conjunct2, THEN conjunct2, THEN conjunct1, rule_format, OF h16]
  show "subscribeToPush callback_style_host dummyRegistration dummyOptions (start ''granted'')
      = (Returns (Rejected (JError TypeError ''Cannot read properties of undefined (reading 'then')'')), \<lparr>globals = browser_globals ''granted'', trace = [HostCall 3 [dummyOptions]]\<rparr>)"
    by (simp add: no_then_def quoted_def)
  have h17: "map_of (globals \<lparr>globals = [], trace = []\<rparr>) ''window'' = None"
    by simp
  from operations_return_promises [THEN conjunct2, THEN conjunct2, THEN conjunct2, THEN conjunct2, THEN conjunct2, THEN conjunct2, THEN conjunct2, THEN conjunct2, THEN conjunct2, THEN conjunct2, THEN conjunct2, THEN conjunct2, THEN conjunct2, THEN conjunct2, THEN conjunct2, THEN conjunct2, THEN conjunct2, THEN conjunct2, THEN conjunct2, THEN conjunct2, THEN conjunct2, THEN conjunct2, THEN conjunct2, rule_format, OF h17]
  show "requestPermission callback_style_host \<lparr>globals = [], trace = []\<rparr>
      = (Returns (Rejected (JError ReferenceError ''window is not defined'')), \<lparr>globals = [], trace = []\<rparr>)"
    .
qed



end
